theory Spec2Isabelle
  imports Complex_Main "HOL-Library.Char_ord" "HOL-Library.Monad_Syntax"
begin

section \<open>Python text\<close>

text \<open>
  A Python \<open>str\<close> is modelled as an Isabelle \<open>string\<close>, one \<open>char\<close> per character, each
  char standing for the Latin-1 character of the same code. The only character
  above U+00FF that the patterns of \<^verbatim>\<open>n8n_webhooks.py\<close> mention is the rupee sign U+20B9; it
  is written as the char \<open>rupee\<close> below (the code of the generic currency sign, which like
  the rupee sign has no case and is neither a word character, a digit nor white space).
  Texts with other characters above U+00FF are outside the model.

  \<open>py_isspace\<close> is \<open>str.isspace\<close> (and the class \<open>\s\<close>), \<open>py_isdecimal\<close> the class
  \<open>\d\<close>, \<open>py_isword\<close> the class \<open>\w\<close>, each restricted to Latin-1.
\<close>

definition py_isspace :: "char \<Rightarrow> bool" where
  "py_isspace c = (c \<in> set [CHR 0x09, CHR 0x0A, CHR 0x0B, CHR 0x0C, CHR 0x0D, CHR 0x1C,
      CHR 0x1D, CHR 0x1E, CHR 0x1F, CHR 0x20, CHR 0x85, CHR 0xA0])"

definition py_isdecimal :: "char \<Rightarrow> bool" where
  "py_isdecimal c = (CHR ''0'' \<le> c \<and> c \<le> CHR ''9'')"

definition py_isupper :: "char \<Rightarrow> bool" where
  "py_isupper c = ((CHR ''A'' \<le> c \<and> c \<le> CHR ''Z'') \<or>
     (CHR 0xC0 \<le> c \<and> c \<le> CHR 0xDE \<and> c \<noteq> CHR 0xD7))"

definition py_islower :: "char \<Rightarrow> bool" where
  "py_islower c = ((CHR ''a'' \<le> c \<and> c \<le> CHR ''z'') \<or>
     (CHR 0xE0 \<le> c \<and> c \<le> CHR 0xFE \<and> c \<noteq> CHR 0xF7))"

definition lower_char :: "char \<Rightarrow> char" where
  "lower_char c = (if py_isupper c then char_of (of_char c + (32::nat)) else c)"

definition upper_char :: "char \<Rightarrow> char" where
  "upper_char c = (if py_islower c then char_of (of_char c - (32::nat)) else c)"

definition py_isword :: "char \<Rightarrow> bool" where
  "py_isword c = (py_isdecimal c \<or> py_isupper c \<or> py_islower c \<or>
     c \<in> set [CHR ''_'', CHR 0xAA, CHR 0xB2, CHR 0xB3, CHR 0xB5, CHR 0xB9, CHR 0xBA, CHR 0xBC,
       CHR 0xBD, CHR 0xBE, CHR 0xDF, CHR 0xFF])"

definition rupee :: char where
  "rupee = CHR 0xA4"

definition lower :: "string \<Rightarrow> string" where
  "lower s = map lower_char s"

definition strip :: "string \<Rightarrow> string" where
  "strip s = rev (dropWhile py_isspace (rev (dropWhile py_isspace s)))"

fun startswith :: "string \<Rightarrow> string \<Rightarrow> bool" where
  "startswith s [] = True"
| "startswith [] (p # ps) = False"
| "startswith (c # cs) (p # ps) = (c = p \<and> startswith cs ps)"

text \<open>\<open>py_in sub s\<close> is Python's \<open>sub in s\<close>.\<close>

fun py_in :: "string \<Rightarrow> string \<Rightarrow> bool" where
  "py_in sub [] = (sub = [])"
| "py_in sub (c # cs) = (startswith (c # cs) sub \<or> py_in sub cs)"

text \<open>
  \<open>after_first sep s\<close> is \<open>s.split(sep)[1:]\<close> joined again (the text after the first
  occurrence of \<open>sep\<close>, \<open>None\<close> when there is none); \<open>before_first sep s\<close> is
  \<open>s.split(sep)[0]\<close>.
\<close>

fun after_first :: "string \<Rightarrow> string \<Rightarrow> string option" where
  "after_first sep [] = None"
| "after_first sep (c # cs) =
     (if startswith (c # cs) sep then Some (drop (length sep) (c # cs)) else after_first sep cs)"

fun before_first :: "string \<Rightarrow> string \<Rightarrow> string" where
  "before_first sep [] = []"
| "before_first sep (c # cs) =
     (if startswith (c # cs) sep then [] else c # before_first sep cs)"

text \<open>
  \<open>py_float\<close> is \<open>float(s)\<close> on the strings the amount patterns can capture once the
  commas are removed (digits with at most one point); \<open>None\<close> is \<open>ValueError\<close>. The value
  is the exact decimal: binary rounding is not modelled.
\<close>

definition digit_val :: "char \<Rightarrow> nat" where
  "digit_val c = of_char c - 48"

definition digits_val :: "string \<Rightarrow> nat" where
  "digits_val ds = foldl (\<lambda>n c. 10 * n + digit_val c) 0 ds"

definition py_float :: "string \<Rightarrow> rat option" where
  "py_float s =
     (let ip = takeWhile py_isdecimal s; rest = dropWhile py_isdecimal s in
      case rest of
        [] \<Rightarrow> if ip = [] then None else Some (of_nat (digits_val ip))
      | c # fp \<Rightarrow>
          if c = CHR ''.'' \<and> list_all py_isdecimal fp \<and> 0 < length ip + length fp
          then Some (of_nat (digits_val ip) + of_nat (digits_val fp) / 10 ^ length fp)
          else None)"

definition remove_commas :: "string \<Rightarrow> string" where
  "remove_commas s = filter (\<lambda>c. c \<noteq> CHR '','') s"

section \<open>Regular expressions\<close>

text \<open>
  The fragment of Python's \<open>re\<close> that the source uses: literals, character classes,
  \<open>.\<close>, \<open>\b\<close>, sequence, alternation, greedy and lazy repetition, and numbered capturing
  groups. \<open>rx\<close> is a backtracking matcher in continuation-passing style, which tries
  alternatives in the order Python's engine does: the left branch of \<open>|\<close> first, one
  more iteration of a greedy repetition before leaving it, and the other way round for
  a lazy one. The first flag is \<open>re.IGNORECASE\<close>, the second \<open>re.DOTALL\<close>. The matcher
  carries the character before the current position (for \<open>\b\<close>), the rest of the text
  and the groups captured so far. An iteration of a repetition that consumes nothing is
  cut off; no pattern of the source has such a body.
\<close>

datatype cset = Ch char | Rng char char | Cspace | Cdigit

datatype regex =
    Lit char
  | Cls "cset list"
  | Dot
  | Bnd
  | Eps
  | Seq regex regex
  | Alt regex regex
  | Star regex
  | Lazy regex
  | Grp nat regex

fun cset_raw :: "cset \<Rightarrow> char \<Rightarrow> bool" where
  "cset_raw (Ch c) x = (x = c)"
| "cset_raw (Rng lo hi) x = (lo \<le> x \<and> x \<le> hi)"
| "cset_raw Cspace x = py_isspace x"
| "cset_raw Cdigit x = py_isdecimal x"

definition cset_match :: "bool \<Rightarrow> cset \<Rightarrow> char \<Rightarrow> bool" where
  "cset_match ic i x =
     (cset_raw i x \<or> (ic \<and> (cset_raw i (lower_char x) \<or> cset_raw i (upper_char x))))"

definition lit_match :: "bool \<Rightarrow> char \<Rightarrow> char \<Rightarrow> bool" where
  "lit_match ic c x = (if ic then lower_char x = lower_char c else x = c)"

definition at_boundary :: "char option \<Rightarrow> string \<Rightarrow> bool" where
  "at_boundary p s =
     ((case p of None \<Rightarrow> False | Some c \<Rightarrow> py_isword c) \<noteq>
      (case s of [] \<Rightarrow> False | c # _ \<Rightarrow> py_isword c))"

type_synonym captures = "(nat \<times> string) list"

type_synonym cont = "char option \<Rightarrow> string \<Rightarrow> captures \<Rightarrow> captures option"

fun rx :: "bool \<Rightarrow> bool \<Rightarrow> regex \<Rightarrow> char option \<Rightarrow> string \<Rightarrow> captures \<Rightarrow> cont \<Rightarrow> captures option" where
  "rx ic da (Lit c) p s g k =
     (case s of [] \<Rightarrow> None | x # xs \<Rightarrow> if lit_match ic c x then k (Some x) xs g else None)"
| "rx ic da (Cls items) p s g k =
     (case s of [] \<Rightarrow> None
      | x # xs \<Rightarrow> if list_ex (\<lambda>i. cset_match ic i x) items then k (Some x) xs g else None)"
| "rx ic da Dot p s g k =
     (case s of [] \<Rightarrow> None
      | x # xs \<Rightarrow> if x = CHR 0x0A \<and> \<not> da then None else k (Some x) xs g)"
| "rx ic da Bnd p s g k = (if at_boundary p s then k p s g else None)"
| "rx ic da Eps p s g k = k p s g"
| "rx ic da (Seq r1 r2) p s g k = rx ic da r1 p s g (\<lambda>p' s' g'. rx ic da r2 p' s' g' k)"
| "rx ic da (Alt r1 r2) p s g k =
     (case rx ic da r1 p s g k of Some m \<Rightarrow> Some m | None \<Rightarrow> rx ic da r2 p s g k)"
| "rx ic da (Star r) p s g k =
     (case rx ic da r p s g
             (\<lambda>p' s' g'. if length s' < length s then rx ic da (Star r) p' s' g' k else None) of
        Some m \<Rightarrow> Some m
      | None \<Rightarrow> k p s g)"
| "rx ic da (Lazy r) p s g k =
     (case k p s g of
        Some m \<Rightarrow> Some m
      | None \<Rightarrow>
          rx ic da r p s g
             (\<lambda>p' s' g'. if length s' < length s then rx ic da (Lazy r) p' s' g' k else None))"
| "rx ic da (Grp n r) p s g k =
     rx ic da r p s g (\<lambda>p' s' g'. k p' s' ((n, take (length s - length s') s) # g'))"

definition accept :: cont where
  "accept p s g = Some g"

text \<open>
  \<open>re_search\<close> is \<open>re.search\<close>: the match at the leftmost start position, as its
  captured groups; \<open>None\<close> when the pattern matches nowhere. \<open>group g n\<close> is
  \<open>match.group(n)\<close>.
\<close>

fun re_search_from :: "bool \<Rightarrow> bool \<Rightarrow> regex \<Rightarrow> char option \<Rightarrow> string \<Rightarrow> captures option" where
  "re_search_from ic da r p [] = rx ic da r p [] [] accept"
| "re_search_from ic da r p (c # cs) =
     (case rx ic da r p (c # cs) [] accept of
        Some g \<Rightarrow> Some g
      | None \<Rightarrow> re_search_from ic da r (Some c) cs)"

definition re_search :: "bool \<Rightarrow> bool \<Rightarrow> regex \<Rightarrow> string \<Rightarrow> captures option" where
  "re_search ic da r s = re_search_from ic da r None s"

definition group :: "captures \<Rightarrow> nat \<Rightarrow> string option" where
  "group g n = map_of g n"

text \<open>Pattern syntax, in terms of the constructors.\<close>

definition seqs :: "regex list \<Rightarrow> regex" where
  "seqs rs = foldr Seq rs Eps"

definition str :: "string \<Rightarrow> regex" where
  "str s = seqs (map Lit s)"

definition alts :: "regex list \<Rightarrow> regex" where
  "alts rs = (case rs of [] \<Rightarrow> Eps | _ \<Rightarrow> foldr Alt (butlast rs) (last rs))"

definition Opt :: "regex \<Rightarrow> regex" where
  "Opt r = Alt r Eps"

definition Plus :: "regex \<Rightarrow> regex" where
  "Plus r = Seq r (Star r)"

definition LazyPlus :: "regex \<Rightarrow> regex" where
  "LazyPlus r = Seq r (Lazy r)"

primrec Times :: "nat \<Rightarrow> regex \<Rightarrow> regex" where
  "Times 0 r = Eps"
| "Times (Suc n) r = Seq r (Times n r)"

primrec UpTo :: "nat \<Rightarrow> regex \<Rightarrow> regex" where
  "UpTo 0 r = Eps"
| "UpTo (Suc n) r = Opt (Seq r (UpTo n r))"

definition AtLeast :: "nat \<Rightarrow> regex \<Rightarrow> regex" where
  "AtLeast n r = Seq (Times n r) (Star r)"

definition ws :: regex where
  "ws = Cls [Cspace]"

definition dg :: regex where
  "dg = Cls [Cdigit]"

definition d09 :: regex where
  "d09 = Cls [Rng CHR ''0'' CHR ''9'']"

text \<open>
  The loop \<open>for pattern in patterns: match = re.search(pattern, s); if match: ...
  group(1); break\<close>.
\<close>

fun first_group :: "bool \<Rightarrow> regex list \<Rightarrow> string \<Rightarrow> string option" where
  "first_group ic [] s = None"
| "first_group ic (r # rs) s =
     (case re_search ic False r s of Some g \<Rightarrow> group g 1 | None \<Rightarrow> first_group ic rs s)"

section \<open>Data model\<close>

text \<open>
  The rows of the three tables the pipeline writes (\<^verbatim>\<open>Source\<close>, \<^verbatim>\<open>Merchant\<close>,
  \<^verbatim>\<open>Transaction\<close>; their declarations are not among the source files, the columns are
  those the constructors in the endpoints set). Clock readings, the file path of an
  upload and the opaque \<^verbatim>\<open>parsed_fields\<close> bag are left out. A nullable column is an
  \<open>option\<close>. \<open>jv\<close> is a scalar JSON value, as the AI collaborator's reply holds them.
\<close>

datatype jv = JNull | JBool bool | JNum rat | JStr string

datatype source_type = UPLOAD | GMAIL | SMS | MANUAL

datatype payment_channel =
  UPI | IMPS | NEFT | CARD | BANK_TRANSFER | NETBANKING | CASH | WALLET | UNKNOWN

record source =
  src_id :: nat
  src_user_consumer_id :: "nat option"
  src_user_business_id :: "nat option"
  src_source_type :: source_type
  src_processed :: bool

record merchant =
  mer_id :: nat
  mer_user_consumer_id :: "nat option"
  mer_user_business_id :: "nat option"
  mer_name_normalized :: string
  mer_name_variants :: "string list"

record transaction =
  txn_id :: nat
  txn_user_consumer_id :: "nat option"
  txn_user_business_id :: "nat option"
  txn_user_type :: string
  txn_source_id :: nat
  txn_merchant_id :: nat
  txn_amount :: rat
  txn_currency :: string
  txn_merchant_name_raw :: string
  txn_category :: string
  txn_payment_channel :: payment_channel
  txn_source_type :: source_type
  txn_invoice_no :: jv
  txn_confirmed :: bool
  txn_classification_confidence :: rat
  txn_ocr_confidence :: rat

record database =
  sources :: "source list"
  merchants :: "merchant list"
  transactions :: "transaction list"

section \<open>The store and the collaborators\<close>

text \<open>
  A request works on a session: a working copy of the committed \<open>database\<close>.
  \<^verbatim>\<open>db.add(x); db.flush()\<close> appends the row with a fresh id, \<^verbatim>\<open>db.commit()\<close> makes the
  working copy the committed state, \<^verbatim>\<open>db.rollback()\<close> drops it. The store may fail at
  each flush and at the commit; \<open>db_faults\<close> says where, and a failing operation
  raises (\<open>None\<close> in the option monad). After a failed flush SQLAlchemy's session
  refuses a commit until it is rolled back. Queries are taken not to fail.

  An external call either raises or returns: \<open>outcome\<close>. The classification
  collaborator (\<^verbatim>\<open>gemini_service.classify_transaction\<close>) returns a dict, read with
  \<^verbatim>\<open>.get\<close>; a key that is absent is \<open>None\<close>. The semantic indexer
  (\<^verbatim>\<open>rag_service.index_transaction\<close>) is called inside a \<^verbatim>\<open>try\<close> whose handler only
  logs, so its outcome changes nothing and it is left out.
\<close>

datatype 'a outcome = Raises | Returns 'a

record classification =
  cls_category :: "string option"
  cls_confidence :: "rat option"

record db_faults =
  flush_source_fails :: bool
  flush_merchant_fails :: bool
  flush_transaction_fails :: bool
  commit_fails :: bool

record env =
  classify_transaction :: "classification outcome"
  faults :: db_faults

definition next_id :: "nat list \<Rightarrow> nat" where
  "next_id ids = Suc (fold max ids 0)"

definition add_source :: "db_faults \<Rightarrow> (nat \<Rightarrow> source) \<Rightarrow> database \<Rightarrow> (source \<times> database) option" where
  "add_source f mk db =
     (if flush_source_fails f then None
      else let s = mk (next_id (map src_id (sources db)))
           in Some (s, db\<lparr>sources := sources db @ [s]\<rparr>))"

definition add_merchant :: "db_faults \<Rightarrow> (nat \<Rightarrow> merchant) \<Rightarrow> database \<Rightarrow> (merchant \<times> database) option" where
  "add_merchant f mk db =
     (if flush_merchant_fails f then None
      else let m = mk (next_id (map mer_id (merchants db)))
           in Some (m, db\<lparr>merchants := merchants db @ [m]\<rparr>))"

definition add_transaction :: "db_faults \<Rightarrow> (nat \<Rightarrow> transaction) \<Rightarrow> database \<Rightarrow> (transaction \<times> database) option" where
  "add_transaction f mk db =
     (if flush_transaction_fails f then None
      else let t = mk (next_id (map txn_id (transactions db)))
           in Some (t, db\<lparr>transactions := transactions db @ [t]\<rparr>))"

definition commit :: "db_faults \<Rightarrow> database \<Rightarrow> database option" where
  "commit f db = (if commit_fails f then None else Some db)"

text \<open>
  SQL \<open>ILIKE\<close>: \<open>%\<close> matches any run of characters, \<open>_\<close> any one character, every other
  character itself up to case. The pattern is built from the merchant's name, so a \<open>%\<close>
  or \<open>_\<close> in the name is a wild card too. (An escape character is not modelled.)
\<close>

fun ilike :: "string \<Rightarrow> string \<Rightarrow> bool" where
  "ilike [] [] = True"
| "ilike [] (p # ps) = (p = CHR ''%'' \<and> ilike [] ps)"
| "ilike (c # cs) [] = False"
| "ilike (c # cs) (p # ps) =
     (if p = CHR ''%'' then ilike (c # cs) ps \<or> ilike cs (p # ps)
      else (p = CHR ''_'' \<or> lower_char p = lower_char c) \<and> ilike cs ps)"

text \<open>
  \<^verbatim>\<open>db.query(Merchant).filter(Merchant.name_normalized.ilike(f"%{name.lower().strip()}%"),
  owner).first()\<close>: the first row, in table order, that passes both filters.
\<close>

definition name_pattern :: "string \<Rightarrow> string" where
  "name_pattern name = ''%'' @ strip (lower name) @ ''%''"

definition query_merchant :: "string \<Rightarrow> (merchant \<Rightarrow> bool) \<Rightarrow> database \<Rightarrow> merchant option" where
  "query_merchant name owned db =
     find (\<lambda>m. ilike (mer_name_normalized m) (name_pattern name) \<and> owned m) (merchants db)"

text \<open>
  The "get or create merchant" step of every channel: the queried row, or else a new
  row, flushed.
\<close>

definition get_or_create_merchant ::
  "db_faults \<Rightarrow> string \<Rightarrow> (merchant \<Rightarrow> bool) \<Rightarrow> (nat \<Rightarrow> merchant) \<Rightarrow> database
    \<Rightarrow> (merchant \<times> database) option" where
  "get_or_create_merchant f name owned mk db =
     (case query_merchant name owned db of
        Some m \<Rightarrow> Some (m, db)
      | None \<Rightarrow> add_merchant f mk db)"

text \<open>
  The owner columns, as every constructor call of the source fills them:
  \<^verbatim>\<open>user_consumer_id=user.id if user_type == "consumer" else None\<close> and its twin.
\<close>

definition consumer_id_of :: "nat \<Rightarrow> string \<Rightarrow> nat option" where
  "consumer_id_of uid user_type = (if user_type = ''consumer'' then Some uid else None)"

definition business_id_of :: "nat \<Rightarrow> string \<Rightarrow> nat option" where
  "business_id_of uid user_type = (if user_type = ''business'' then Some uid else None)"

definition user_type_label :: "string \<Rightarrow> string" where
  "user_type_label user_type = (if user_type = ''consumer'' then ''CONSUMER'' else ''BUSINESS'')"

text \<open>
  The owner filter of a merchant query:
  \<^verbatim>\<open>(Merchant.user_consumer_id == user.id) if user_type == "consumer" else
  (Merchant.user_business_id == user.id)\<close>. A null column equals nothing.
\<close>

definition owned_by :: "nat \<Rightarrow> string \<Rightarrow> merchant \<Rightarrow> bool" where
  "owned_by uid user_type m =
     (if user_type = ''consumer'' then mer_user_consumer_id m = Some uid
      else mer_user_business_id m = Some uid)"

text \<open>Python's \<open>x or y\<close> on optional strings: \<open>x\<close> when it is neither None nor empty.\<close>

definition py_or :: "string option \<Rightarrow> string \<Rightarrow> string" where
  "py_or x y = (case x of None \<Rightarrow> y | Some s \<Rightarrow> if s = [] then y else s)"

definition get_or :: "'a option \<Rightarrow> 'a \<Rightarrow> 'a" where
  "get_or x d = (case x of None \<Rightarrow> d | Some v \<Rightarrow> v)"

section \<open>SMS channel: \<^verbatim>\<open>n8n_sms_webhook\<close>\<close>

text \<open>
  The patterns of \<^verbatim>\<open>n8n_webhooks.py\<close>, in the order of the source. Each is given with
  the raw string it translates.
\<close>

definition sms_body_pattern :: regex where
  \<comment> \<open>\<^verbatim>\<open>\*{8,}[\r\n]+(.+)\<close>, with DOTALL\<close>
  "sms_body_pattern =
     seqs [AtLeast 8 (Lit CHR ''*''), Plus (Cls [Ch CHR 0x0D, Ch CHR 0x0A]), Grp 1 (Plus Dot)]"

definition from_pattern :: regex where
  \<comment> \<open>\<^verbatim>\<open>From: '(.+?)' \((.+?)\)\<close>\<close>
  "from_pattern =
     seqs [str ''From: '', Lit CHR 0x27, Grp 1 (LazyPlus Dot), Lit CHR 0x27, str '' ('',
           Grp 2 (LazyPlus Dot), Lit CHR '')'']"

definition payment_keywords :: "regex list" where
  "payment_keywords =
    [seqs [Bnd, str ''rs'', Opt (Lit CHR ''.''), Star ws, Plus dg],
     seqs [Lit rupee, Star ws, Plus dg],
     seqs [str ''inr'', Star ws, Plus dg],
     seqs [str ''debite'', Opt (Lit CHR ''d'')],
     seqs [str ''credite'', Opt (Lit CHR ''d'')],
     str ''paid'', str ''received'', str ''sent'', str ''transferred'',
     str ''upi'', str ''imps'', str ''neft'', str ''rtgs'',
     seqs [Lit CHR ''a'', Opt (Lit CHR ''/''), Lit CHR ''c'', Star ws,
           Opt (seqs [str ''no'', Opt (Lit CHR ''.'')]), Star ws,
           Star (Cls [Ch CHR ''x'', Ch CHR ''*'']), Plus dg],
     seqs [str ''ref'', Opt (str ''erence''),
           Opt (seqs [Star ws, str ''no'', Opt (Lit CHR ''.'')]),
           Star (Cls [Ch CHR '':'', Cspace]), Plus dg],
     str ''txn'', str ''transaction'', str ''payment'']"

definition is_payment :: "string \<Rightarrow> bool" where
  "is_payment sms_body =
     list_ex (\<lambda>pattern. re_search True False pattern sms_body \<noteq> None) payment_keywords"

definition num_token :: regex where
  \<comment> \<open>\<^verbatim>\<open>[0-9,]+\.?[0-9]*\<close>\<close>
  "num_token =
     seqs [Plus (Cls [Rng CHR ''0'' CHR ''9'', Ch CHR '','']), Opt (Lit CHR ''.''), Star d09]"

definition currency_marker :: regex where
  \<comment> \<open>\<^verbatim>\<open>(?:rs\.?|RUPEE|inr)\<close>\<close>
  "currency_marker = alts [seqs [str ''rs'', Opt (Lit CHR ''.'')], Lit rupee, str ''inr'']"

definition amount_patterns :: "regex list" where
  "amount_patterns =
    [seqs [currency_marker, Star ws, Grp 1 num_token],
     seqs [Grp 1 num_token, Star ws, currency_marker]]"

definition credit_pattern :: regex where
  \<comment> \<open>\<^verbatim>\<open>credited?|received|deposited\<close>\<close>
  "credit_pattern = alts [seqs [str ''credite'', Opt (Lit CHR ''d'')], str ''received'', str ''deposited'']"

definition upi_pattern :: regex where
  \<comment> \<open>\<^verbatim>\<open>(?:to|from)\s+(?:vpa\s+)?([a-z0-9._-]+@[a-z]+)\<close>\<close>
  "upi_pattern =
     seqs [alts [str ''to'', str ''from''], Plus ws, Opt (seqs [str ''vpa'', Plus ws]),
           Grp 1 (seqs [Plus (Cls [Rng CHR ''a'' CHR ''z'', Rng CHR ''0'' CHR ''9'', Ch CHR ''.'',
                                   Ch CHR ''_'', Ch CHR ''-'']),
                        Lit CHR ''@'', Plus (Cls [Rng CHR ''a'' CHR ''z''])])]"

definition merchant_patterns :: "regex list" where
  \<comment> \<open>\<^verbatim>\<open>(?:to|at|from)\s+([A-Z][a-z]+(?:\s+[A-Z][a-z]+)*)\<close> and
     \<^verbatim>\<open>(?:to|at|from)\s+([A-Z0-9]+)\<close>, case-sensitive\<close>
  "merchant_patterns =
    (let cap = Cls [Rng CHR ''A'' CHR ''Z'']; low = Cls [Rng CHR ''a'' CHR ''z''];
         intro = alts [str ''to'', str ''at'', str ''from'']
     in [seqs [intro, Plus ws,
               Grp 1 (seqs [cap, Plus low, Star (seqs [Plus ws, cap, Plus low])])],
         seqs [intro, Plus ws, Grp 1 (Plus (Cls [Rng CHR ''A'' CHR ''Z'', Rng CHR ''0'' CHR ''9'']))]])"

definition ref_patterns :: "regex list" where
  \<comment> \<open>\<^verbatim>\<open>upi\s+ref(?:erence)?[:\s]*([0-9]+)\<close>,
     \<^verbatim>\<open>ref(?:erence)?(?:\s*no\.?)?[:\s]*([0-9]+)\<close>, \<^verbatim>\<open>txn[:\s]*([0-9]+)\<close>\<close>
  "ref_patterns =
    (let sep = Star (Cls [Ch CHR '':'', Cspace])
     in [seqs [str ''upi'', Plus ws, str ''ref'', Opt (str ''erence''), sep, Grp 1 (Plus d09)],
         seqs [str ''ref'', Opt (str ''erence''),
               Opt (seqs [Star ws, str ''no'', Opt (Lit CHR ''.'')]), sep, Grp 1 (Plus d09)],
         seqs [str ''txn'', sep, Grp 1 (Plus d09)]])"

definition acc_pattern :: regex where
  \<comment> \<open>\<^verbatim>\<open>a/?c\s*(?:no\.?)?\s*[x*]*([0-9]{4})\<close>\<close>
  "acc_pattern =
     seqs [Lit CHR ''a'', Opt (Lit CHR ''/''), Lit CHR ''c'', Star ws,
           Opt (seqs [str ''no'', Opt (Lit CHR ''.'')]), Star ws,
           Star (Cls [Ch CHR ''x'', Ch CHR ''*'']), Grp 1 (Times 4 d09)]"

definition balance_pattern :: regex where
  \<comment> \<open>\<^verbatim>\<open>(?:bal|balance)[:\s]*(?:rs\.?|RUPEE)?\s*([0-9,]+\.?[0-9]*)\<close>\<close>
  "balance_pattern =
     seqs [alts [str ''bal'', str ''balance''], Star (Cls [Ch CHR '':'', Cspace]),
           Opt (alts [seqs [str ''rs'', Opt (Lit CHR ''.'')], Lit rupee]), Star ws,
           Grp 1 num_token]"

definition word :: "string \<Rightarrow> regex" where
  \<comment> \<open>\<^verbatim>\<open>\bw\b\<close>\<close>
  "word w = seqs [Bnd, str w, Bnd]"

record sms_fields =
  sf_amount :: "rat option"
  sf_merchant :: "string option"
  sf_upi_id :: "string option"
  sf_reference_number :: "string option"
  sf_account_number :: "string option"
  sf_transaction_type :: string
  sf_balance :: "rat option"

text \<open>
  \<open>parse_amount\<close> is \<^verbatim>\<open>float(match.group(1).replace(',', ''))\<close> when there is a match;
  the outer \<open>None\<close> is the \<open>ValueError\<close> of \<open>float\<close> (for instance on a lone comma).
\<close>

definition parse_amount :: "string option \<Rightarrow> rat option option" where
  "parse_amount m =
     (case m of None \<Rightarrow> Some None | Some t \<Rightarrow> map_option Some (py_float (remove_commas t)))"

text \<open>
  Lines 115 to 177 of the handler: the fields parsed from the body. \<open>None\<close> when one of
  the two \<open>float\<close> calls raises.
\<close>

definition extract_sms_fields :: "string \<Rightarrow> sms_fields option" where
  "extract_sms_fields sms_body = do {
     amount \<leftarrow> parse_amount (first_group True amount_patterns sms_body);
     let transaction_type =
       (if re_search True False credit_pattern sms_body \<noteq> None then ''credit'' else ''debit'');
     let upi_id = first_group True [upi_pattern] sms_body;
     let merchant = (case upi_id of Some u \<Rightarrow> Some (before_first ''@'' u) | None \<Rightarrow> None);
     let merchant = (case merchant of
                       None \<Rightarrow> first_group False merchant_patterns sms_body
                     | Some m \<Rightarrow> if m = [] then first_group False merchant_patterns sms_body
                                else Some m);
     let reference_number = first_group True ref_patterns sms_body;
     let account_number = first_group True [acc_pattern] sms_body;
     balance \<leftarrow> parse_amount (first_group True [balance_pattern] sms_body);
     Some \<lparr>sf_amount = amount, sf_merchant = merchant, sf_upi_id = upi_id,
           sf_reference_number = reference_number, sf_account_number = account_number,
           sf_transaction_type = transaction_type, sf_balance = balance\<rparr>
   }"

text \<open>Lines 222 to 229: the payment channel, UPI unless a keyword says otherwise.\<close>

definition sms_payment_channel :: "string \<Rightarrow> payment_channel" where
  "sms_payment_channel sms_body =
     (if re_search True False (word ''imps'') sms_body \<noteq> None then IMPS
      else if re_search True False (word ''neft'') sms_body \<noteq> None then NEFT
      else if re_search True False (word ''card'') sms_body \<noteq> None then CARD
      else UPI)"

definition sms_body_of :: "string \<Rightarrow> string" where
  "sms_body_of raw_sms =
     (case re_search False True sms_body_pattern raw_sms of
        Some g \<Rightarrow> strip (get_or (group g 1) [])
      | None \<Rightarrow> raw_sms)"

definition sender_name_of :: "string \<Rightarrow> string option" where
  "sender_name_of raw_sms =
     (case re_search False False from_pattern raw_sms of Some g \<Rightarrow> group g 1 | None \<Rightarrow> None)"

record user =
  user_id :: nat
  consent_sms_ingest :: bool

text \<open>
  \<^verbatim>\<open>N8nWebhookResponse\<close>, without its message text. A handler returns
  \<open>Inl status\<close> for the \<^verbatim>\<open>HTTPException\<close> it raises and \<open>Inr response\<close> otherwise, next
  to the committed state of the store.
\<close>

record webhook_response =
  success :: bool
  transaction_id :: "nat option"
  source_id :: "nat option"
  resp_is_payment :: bool
  resp_category :: "string option"
  resp_confidence :: "rat option"

definition classification_or_unknown :: "classification outcome \<Rightarrow> string \<times> rat" where
  "classification_or_unknown c =
     (case c of
        Raises \<Rightarrow> (''Unknown'', 0)
      | Returns r \<Rightarrow> (get_or (cls_category r) ''Unknown'', get_or (cls_confidence r) 0))"

text \<open>Lines 184 to 312, inside the \<^verbatim>\<open>try\<close>: \<open>None\<close> is an exception, which the handler
  answers with a rollback and status 500.\<close>

definition sms_persist ::
  "env \<Rightarrow> user \<Rightarrow> string \<Rightarrow> string \<Rightarrow> string option \<Rightarrow> sms_fields \<Rightarrow> rat \<Rightarrow> database
    \<Rightarrow> (webhook_response \<times> database) option" where
  "sms_persist e usr user_type sms_body sender_name f amount db = do {
     let merchant = py_or (sf_merchant f) (py_or sender_name ''Unknown Merchant'');
     (source, db1) \<leftarrow> add_source (faults e)
        (\<lambda>i. \<lparr>src_id = i, src_user_consumer_id = consumer_id_of (user_id usr) user_type,
              src_user_business_id = business_id_of (user_id usr) user_type,
              src_source_type = SMS, src_processed = True\<rparr>) db;
     let merchant_identifier = py_or (sf_upi_id f) merchant;
     let merchant_name = take 255 merchant;
     (merchant_obj, db2) \<leftarrow>
        get_or_create_merchant (faults e) merchant_identifier (owned_by (user_id usr) user_type)
          (\<lambda>i. \<lparr>mer_id = i, mer_user_consumer_id = consumer_id_of (user_id usr) user_type,
                mer_user_business_id = business_id_of (user_id usr) user_type,
                mer_name_normalized = strip (lower merchant_identifier),
                mer_name_variants = [merchant_name] @
                  (case sf_upi_id f of None \<Rightarrow> [] | Some u \<Rightarrow> if u = [] then [] else [u])\<rparr>)
          db1;
     let payment_channel = sms_payment_channel sms_body;
     let (category, classification_confidence) =
        classification_or_unknown (classify_transaction e);
     (transaction, db3) \<leftarrow> add_transaction (faults e)
        (\<lambda>i. \<lparr>txn_id = i, txn_user_consumer_id = consumer_id_of (user_id usr) user_type,
              txn_user_business_id = business_id_of (user_id usr) user_type,
              txn_user_type = user_type_label user_type,
              txn_source_id = src_id source, txn_merchant_id = mer_id merchant_obj,
              txn_amount = amount, txn_currency = ''INR'', txn_merchant_name_raw = merchant_name,
              txn_category = category, txn_payment_channel = payment_channel,
              txn_source_type = SMS,
              txn_invoice_no = (case sf_reference_number f of None \<Rightarrow> JNull | Some r \<Rightarrow> JStr r),
              txn_confirmed = True, txn_classification_confidence = classification_confidence,
              txn_ocr_confidence = 1\<rparr>) db2;
     db4 \<leftarrow> commit (faults e) db3;
     Some (\<lparr>success = True, transaction_id = Some (txn_id transaction),
            source_id = Some (src_id source), resp_is_payment = True,
            resp_category = Some category, resp_confidence = Some classification_confidence\<rparr>, db4)
   }"

definition n8n_sms_webhook ::
  "env \<Rightarrow> user \<Rightarrow> string \<Rightarrow> string \<Rightarrow> database \<Rightarrow> (nat + webhook_response) \<times> database" where
  "n8n_sms_webhook e usr user_type raw_sms db =
     (if \<not> consent_sms_ingest usr then (Inl 403, db)
      else
        let sms_body = sms_body_of raw_sms; sender_name = sender_name_of raw_sms in
        if \<not> is_payment sms_body
        then (Inr \<lparr>success = True, transaction_id = None, source_id = None,
                   resp_is_payment = False, resp_category = None, resp_confidence = None\<rparr>, db)
        else
          case extract_sms_fields sms_body of
            None \<Rightarrow> (Inl 500, db)
          | Some f \<Rightarrow>
              (case sf_amount f of
                 None \<Rightarrow> (Inl 400, db)
               | Some amount \<Rightarrow>
                   if amount \<le> 0 then (Inl 400, db)
                   else
                     (case sms_persist e usr user_type sms_body sender_name f amount db of
                        None \<Rightarrow> (Inl 500, db)
                      | Some (response, db') \<Rightarrow> (Inr response, db'))))"

section \<open>Email channel: \<^verbatim>\<open>GmailService\<close>\<close>

text \<open>
  The dict that \<^verbatim>\<open>_extract_transaction_data\<close> and \<^verbatim>\<open>_fallback_regex_extraction\<close> return and
  \<^verbatim>\<open>_parse_email_message\<close> extends. \<open>td_gemini_confidence\<close> is \<open>None\<close> when the key is
  absent, as it is in what the regex fallback returns. (The keys \<^verbatim>\<open>date\<close> and
  \<^verbatim>\<open>email_date\<close> are left out with the clock.)
\<close>

record transaction_data =
  td_amount :: "rat option"
  td_merchant :: "string option"
  td_transaction_type :: jv
  td_payment_method :: jv
  td_reference_number :: jv
  td_gemini_confidence :: "jv option"
  td_email_id :: "string option"
  td_sender :: "string option"
  td_subject :: "string option"

text \<open>
  The keyword pre-check. The source file spells one more keyword, and one more
  alternative of the currency marker below, with characters above U+00FF (U+201A,
  U+00C7, U+03C0); no text of the model contains them, so the keyword is left out and
  the alternative is the empty class, which matches nothing.
\<close>

definition transaction_keywords :: "string list" where
  "transaction_keywords =
    [''payment'', ''transaction'', ''debited'', ''credited'', ''upi'', ''imps'', ''neft'',
     ''purchase'', ''receipt'', ''rs.'', ''inr'', ''bank'', ''transfer'', ''paid'', ''amount'']"

definition fb_number :: regex where
  \<comment> \<open>\<^verbatim>\<open>\d{1,3}(?:,\d{3})*(?:\.\d{2})?\<close>\<close>
  "fb_number =
     seqs [dg, UpTo 2 dg, Star (seqs [Lit CHR '','', Times 3 dg]),
           Opt (seqs [Lit CHR ''.'', Times 2 dg])]"

definition fb_currency :: regex where
  "fb_currency = alts [seqs [str ''rs'', Opt (Lit CHR ''.'')], str ''inr'', Cls []]"

definition fb_amount_patterns :: "regex list" where
  "fb_amount_patterns =
    (let sep = Star (Cls [Ch CHR '':'', Cspace])
     in [seqs [fb_currency, Star ws, Grp 1 fb_number],
         seqs [str ''amount'', sep, Opt fb_currency, Star ws, Grp 1 fb_number],
         seqs [alts [str ''debited'', str ''credited'', str ''paid''], sep, Opt fb_currency,
               Star ws, Grp 1 fb_number]])"

definition fb_merchant_patterns :: "regex list" where
  "fb_merchant_patterns =
    (let intro = alts [str ''to'', str ''at'', str ''from''];
         name = Grp 1 (LazyPlus (Cls [Rng CHR ''A'' CHR ''Z'', Rng CHR ''a'' CHR ''z'',
                        Rng CHR ''0'' CHR ''9'', Cspace, Ch CHR ''&'', Ch CHR ''.'', Ch CHR ''-'']));
         stop = alts [seqs [Plus ws, str ''on''], Lit CHR ''.'', Lit CHR 0x0A];
         sep = Plus (Cls [Ch CHR '':'', Cspace])
     in [seqs [intro, Plus ws, Opt (seqs [str ''vpa'', Plus ws]),
               Grp 1 (seqs [Plus (Cls [Rng CHR ''a'' CHR ''z'', Rng CHR ''0'' CHR ''9'',
                                       Ch CHR ''.'', Ch CHR ''_'', Ch CHR ''-'']),
                            Lit CHR ''@'', Plus (Cls [Rng CHR ''a'' CHR ''z''])])],
         seqs [intro, Plus ws, name,
               alts [seqs [Plus ws, str ''on''], seqs [Plus ws, str ''for''],
                     seqs [Plus ws, str ''via''], seqs [Plus ws, str ''upi''],
                     Lit CHR ''.'', Lit CHR 0x0A]],
         seqs [str ''merchant'', sep, name, stop],
         seqs [str ''payee'', sep, name, stop],
         seqs [str ''paid to'', Plus ws, name, stop]])"

definition fb_ref_patterns :: "regex list" where
  "fb_ref_patterns =
    (let code = Grp 1 (AtLeast 10 (Cls [Rng CHR ''A'' CHR ''Z'', Rng CHR ''0'' CHR ''9'']))
     in [seqs [alts [str ''ref'', str ''reference'', str ''transaction id'', str ''txn''],
               Star (Cls [Ch CHR '':'', Cspace, Ch CHR ''#'']), code],
         seqs [str ''upi'', Plus ws, str ''ref'', Star (Cls [Ch CHR '':'', Cspace]), code]])"

text \<open>
  The amount loop: the first pattern that matches and whose group \<open>float\<close> accepts.
  (Group 1 takes part in every match of every pattern here and in the SMS handler, so
  \<open>group g 1\<close> is never \<open>None\<close> after a match.)
\<close>

fun fb_amount :: "regex list \<Rightarrow> string \<Rightarrow> rat option" where
  "fb_amount [] s = None"
| "fb_amount (r # rs) s =
     (case re_search False False r s of
        None \<Rightarrow> fb_amount rs s
      | Some g \<Rightarrow>
          (case py_float (remove_commas (get_or (group g 1) [])) of
             None \<Rightarrow> fb_amount rs s
           | Some a \<Rightarrow> Some a))"

fun fb_merchant :: "regex list \<Rightarrow> string \<Rightarrow> string option" where
  "fb_merchant [] s = None"
| "fb_merchant (r # rs) s =
     (case re_search False False r s of
        None \<Rightarrow> fb_merchant rs s
      | Some g \<Rightarrow>
          (let merchant = strip (get_or (group g 1) []) in
           if 2 < length merchant
           then Some (take 100 (if CHR ''@'' \<in> set merchant then before_first ''@'' merchant
                                else merchant))
           else fb_merchant rs s))"

definition bank_senders :: "string list" where
  "bank_senders = [''bank'', ''icici'', ''hdfc'', ''sbi'', ''axis'', ''kotak'']"

definition fallback_regex_extraction :: "string \<Rightarrow> string \<Rightarrow> transaction_data option" where
  "fallback_regex_extraction text sender =
     (let text_lower = lower text;
          amount = fb_amount fb_amount_patterns text_lower;
          transaction_type =
            (if py_in ''debited'' text_lower \<or> py_in ''debit'' text_lower \<or> py_in ''paid'' text_lower
             then JStr ''debit''
             else if py_in ''credited'' text_lower \<or> py_in ''credit'' text_lower \<or>
                     py_in ''received'' text_lower
             then JStr ''credit'' else JNull);
          merchant =
            (case fb_merchant fb_merchant_patterns text_lower of
               Some m \<Rightarrow> if m = [] then None else Some m
             | None \<Rightarrow> None);
          merchant =
            (case merchant of
               Some m \<Rightarrow> m
             | None \<Rightarrow> if list_ex (\<lambda>bank. py_in bank (lower sender)) bank_senders
                        then ''Bank Transaction'' else ''Unknown'');
          payment_method =
            (if py_in ''upi'' text_lower then JStr ''UPI''
             else if py_in ''card'' text_lower \<or> py_in ''credit card'' text_lower \<or>
                     py_in ''debit card'' text_lower then JStr ''CARD''
             else if py_in ''imps'' text_lower then JStr ''IMPS''
             else if py_in ''neft'' text_lower then JStr ''NEFT''
             else if py_in ''netbanking'' text_lower then JStr ''NETBANKING''
             else JNull);
          reference_number =
            (case first_group False fb_ref_patterns text_lower of
               None \<Rightarrow> JNull | Some r \<Rightarrow> JStr r)
      in case amount of
           None \<Rightarrow> None
         | Some a \<Rightarrow>
             if a = 0 then None
             else Some \<lparr>td_amount = Some a, td_merchant = Some merchant,
                        td_transaction_type = transaction_type,
                        td_payment_method = payment_method,
                        td_reference_number = reference_number,
                        td_gemini_confidence = None,
                        td_email_id = None, td_sender = None, td_subject = None\<rparr>)"

text \<open>
  The AI collaborator's reply: the call raises or returns a text. \<^verbatim>\<open>json.loads\<close> is a
  parameter: \<open>None\<close> is \<^verbatim>\<open>JSONDecodeError\<close>, a JSON object is its fields (scalars; a
  field that holds an array or an object is outside the model), any other JSON
  document is \<open>JNonObject\<close>.

  \<open>truthy\<close> is Python's truth value of \<^verbatim>\<open>result.get(key)\<close>; \<open>num_of\<close> the value a
  comparison with a number reads, \<open>None\<close> where Python raises \<^verbatim>\<open>TypeError\<close> (a bool
  counts as 0 or 1).
\<close>

datatype json = JObject "string \<Rightarrow> jv option" | JNonObject

definition truthy :: "jv option \<Rightarrow> bool" where
  "truthy v =
     (case v of
        None \<Rightarrow> False
      | Some JNull \<Rightarrow> False
      | Some (JBool b) \<Rightarrow> b
      | Some (JNum n) \<Rightarrow> n \<noteq> 0
      | Some (JStr s) \<Rightarrow> s \<noteq> [])"

definition num_of :: "jv \<Rightarrow> rat option" where
  "num_of v =
     (case v of
        JNum n \<Rightarrow> Some n
      | JBool b \<Rightarrow> Some (if b then 1 else 0)
      | JNull \<Rightarrow> None
      | JStr s \<Rightarrow> None)"

definition fence :: string where
  "fence = replicate 3 (CHR 0x60)"

definition strip_code_fence :: "string \<Rightarrow> string" where
  "strip_code_fence result_text =
     (case after_first (fence @ ''json'') result_text of
        Some t \<Rightarrow> strip (before_first fence t)
      | None \<Rightarrow>
          (case after_first fence result_text of
             Some t \<Rightarrow> strip (before_first fence t)
           | None \<Rightarrow> result_text))"

text \<open>
  Lines 308 to 336: what the handler makes of a parsed reply. \<open>Raises\<close> is an exception
  (a \<^verbatim>\<open>TypeError\<close> of a comparison or of the slice of a merchant that is no string),
  which sends the caller to the regex fallback; \<open>Returns None\<close> is "not a transaction".
\<close>

definition ai_verdict :: "(string \<Rightarrow> jv option) \<Rightarrow> transaction_data option outcome" where
  "ai_verdict result =
     (if \<not> truthy (result ''is_transaction'') then Returns None
      else if \<not> truthy (result ''amount'') then Returns None
      else
        case num_of (get_or (result ''amount'') JNull) of
          None \<Rightarrow> Raises
        | Some amount \<Rightarrow>
            if amount \<le> 0 then Returns None
            else
              (case num_of (get_or (result ''confidence'') (JNum 0)) of
                 None \<Rightarrow> Raises
               | Some confidence \<Rightarrow>
                   if confidence < 6 / 10 then Returns None
                   else
                     (case get_or (result ''merchant'') (JStr ''Unknown'') of
                        JStr m \<Rightarrow>
                          Returns (Some
                            \<lparr>td_amount = Some amount, td_merchant = Some (take 100 m),
                             td_transaction_type =
                               get_or (result ''transaction_type'') (JStr ''debit''),
                             td_payment_method =
                               get_or (result ''payment_method'') (JStr ''UNKNOWN''),
                             td_reference_number = get_or (result ''reference_number'') JNull,
                             td_gemini_confidence =
                               Some (get_or (result ''confidence'') (JNum 0)),
                             td_email_id = None, td_sender = None, td_subject = None\<rparr>)
                      | JNull \<Rightarrow> Raises
                      | JBool b \<Rightarrow> Raises
                      | JNum n \<Rightarrow> Raises)))"

definition has_transaction_keyword :: "string \<Rightarrow> bool" where
  "has_transaction_keyword text =
     list_ex (\<lambda>keyword. py_in keyword (lower text)) transaction_keywords"

definition extract_transaction_data ::
  "(string \<Rightarrow> json option) \<Rightarrow> string outcome \<Rightarrow> string \<Rightarrow> string \<Rightarrow> string
    \<Rightarrow> transaction_data option" where
  "extract_transaction_data json_loads ai_response subject body sender =
     (let text = subject @ [CHR 0x0A] @ body in
      if \<not> has_transaction_keyword text then None
      else
        case ai_response of
          Raises \<Rightarrow> fallback_regex_extraction text sender
        | Returns response_text \<Rightarrow>
            (case json_loads (strip_code_fence (strip response_text)) of
               None \<Rightarrow> fallback_regex_extraction text sender
             | Some JNonObject \<Rightarrow> fallback_regex_extraction text sender
             | Some (JObject result) \<Rightarrow>
                 (case ai_verdict result of
                    Raises \<Rightarrow> fallback_regex_extraction text sender
                  | Returns v \<Rightarrow> v)))"

text \<open>
  The mailbox, as far as the poller sees it. \<open>search_hit\<close> is the mail service's own
  verdict on the keyword clause of the poller's query; \<open>body\<close> is the plain text that
  \<^verbatim>\<open>_get_email_body\<close> makes of the message. Times are seconds since the epoch.
\<close>

record email =
  email_id :: string
  internal_date :: int
  unread :: bool
  search_hit :: bool
  subject :: string
  sender :: string
  body :: string

text \<open>
  What the world does while one message is processed: whether \<^verbatim>\<open>messages().get\<close>
  answers, the AI collaborator's reply to the extraction prompt, the classification
  and store outcomes (\<open>env\<close>), and whether \<^verbatim>\<open>messages().modify\<close> answers.
\<close>

record msg_world =
  get_ok :: bool
  ai_response :: "string outcome"
  store_env :: env
  modify_ok :: bool

definition parse_email_message ::
  "(string \<Rightarrow> json option) \<Rightarrow> msg_world \<Rightarrow> email list \<Rightarrow> string \<Rightarrow> transaction_data option" where
  "parse_email_message json_loads w mailbox message_id =
     (if \<not> get_ok w then None
      else
        case find (\<lambda>m. email_id m = message_id) mailbox of
          None \<Rightarrow> None
        | Some m \<Rightarrow>
            (case extract_transaction_data json_loads (ai_response w) (subject m) (body m) (sender m) of
               None \<Rightarrow> None
             | Some td \<Rightarrow>
                 Some (td\<lparr>td_email_id := Some message_id, td_sender := Some (sender m),
                          td_subject := Some (subject m)\<rparr>)))"

section \<open>Email channel: \<^verbatim>\<open>GmailMonitorService\<close>\<close>

text \<open>
  The fields of the poller that the poll cycle reads or writes. \<open>service_ready\<close> is
  \<^verbatim>\<open>self.gmail_service.service is not None\<close>. The background thread is not modelled:
  a cycle is one call of \<open>check_new_emails\<close>.
\<close>

record monitor =
  is_running :: bool
  last_check_time :: "int option"
  processed_message_ids :: "string set"
  current_user_id :: "nat option"
  current_user_type :: "string option"
  service_ready :: bool

definition new_monitor :: monitor where
  "new_monitor =
     \<lparr>is_running = False, last_check_time = None, processed_message_ids = {},
      current_user_id = None, current_user_type = None, service_ready = False\<rparr>"

definition start :: "nat \<Rightarrow> string \<Rightarrow> monitor \<Rightarrow> monitor" where
  "start uid user_type st =
     (if is_running st then st
      else st\<lparr>current_user_id := Some uid, current_user_type := Some user_type,
              is_running := True\<rparr>)"

text \<open>
  What \<^verbatim>\<open>_process_email_message\<close> did with a message: the source returns \<open>True\<close> for
  \<open>Committed\<close> (with the id of the transaction it logs) and \<open>False\<close> for the others,
  which are its four failure exits.
\<close>

datatype processing =
  Committed nat | No_user_configured | No_transaction_data | No_amount | Database_error

definition succeeded :: "processing \<Rightarrow> bool" where
  "succeeded r = (case r of Committed tid \<Rightarrow> True | _ \<Rightarrow> False)"

definition channel_map :: "jv \<Rightarrow> payment_channel" where
  "channel_map payment_method =
     (if payment_method = JStr ''UPI'' then UPI
      else if payment_method = JStr ''CARD'' then CARD
      else if payment_method = JStr ''IMPS'' then BANK_TRANSFER
      else if payment_method = JStr ''NEFT'' then BANK_TRANSFER
      else if payment_method = JStr ''NETBANKING'' then NETBANKING
      else UNKNOWN)"

text \<open>
  Lines 370 to 488, the body of the inner \<^verbatim>\<open>try\<close>. \<open>user_type\<close> is
  \<^verbatim>\<open>self.current_user_type\<close>, with the empty string for \<open>None\<close> (both differ from the
  two labels it is compared with).
\<close>

definition gmail_persist ::
  "env \<Rightarrow> nat \<Rightarrow> string \<Rightarrow> transaction_data \<Rightarrow> rat \<Rightarrow> database \<Rightarrow> (nat \<times> database) option" where
  "gmail_persist e uid user_type td amount db = do {
     let merchant = py_or (td_merchant td) ''Unknown'';
     (source, db1) \<leftarrow> add_source (faults e)
        (\<lambda>i. \<lparr>src_id = i, src_user_consumer_id = consumer_id_of uid user_type,
              src_user_business_id = business_id_of uid user_type,
              src_source_type = GMAIL, src_processed = True\<rparr>) db;
     let merchant_name = take 255 merchant;
     (merchant_obj, db2) \<leftarrow>
        get_or_create_merchant (faults e) merchant_name (owned_by uid user_type)
          (\<lambda>i. \<lparr>mer_id = i, mer_user_consumer_id = consumer_id_of uid user_type,
                mer_user_business_id = business_id_of uid user_type,
                mer_name_normalized = strip (lower merchant_name),
                mer_name_variants = [merchant_name]\<rparr>) db1;
     let payment_channel = channel_map (td_payment_method td);
     let (category, classification_confidence) =
        classification_or_unknown (classify_transaction e);
     (transaction, db3) \<leftarrow> add_transaction (faults e)
        (\<lambda>i. \<lparr>txn_id = i, txn_user_consumer_id = consumer_id_of uid user_type,
              txn_user_business_id = business_id_of uid user_type,
              txn_user_type = user_type_label user_type,
              txn_source_id = src_id source, txn_merchant_id = mer_id merchant_obj,
              txn_amount = amount, txn_currency = ''INR'', txn_merchant_name_raw = merchant_name,
              txn_category = category, txn_payment_channel = payment_channel,
              txn_source_type = GMAIL, txn_invoice_no = td_reference_number td,
              txn_confirmed = True, txn_classification_confidence = classification_confidence,
              txn_ocr_confidence = 1\<rparr>) db2;
     db4 \<leftarrow> commit (faults e) db3;
     Some (txn_id transaction, db4)
   }"

definition process_email_message ::
  "(string \<Rightarrow> json option) \<Rightarrow> monitor \<Rightarrow> msg_world \<Rightarrow> email list \<Rightarrow> string \<Rightarrow> database
    \<Rightarrow> processing \<times> database" where
  "process_email_message json_loads st w mailbox message_id db =
     (case current_user_id st of
        None \<Rightarrow> (No_user_configured, db)
      | Some uid \<Rightarrow>
          if uid = 0 then (No_user_configured, db)
          else
            (case parse_email_message json_loads w mailbox message_id of
               None \<Rightarrow> (No_transaction_data, db)
             | Some td \<Rightarrow>
                 (case td_amount td of
                    None \<Rightarrow> (No_amount, db)
                  | Some amount \<Rightarrow>
                      if amount = 0 then (No_amount, db)
                      else
                        (case gmail_persist (store_env w) uid (get_or (current_user_type st) [])
                                td amount db of
                           None \<Rightarrow> (Database_error, db)
                         | Some (tid, db') \<Rightarrow> (Committed tid, db')))))"

text \<open>
  The poller's query \<^verbatim>\<open>is:unread after:T (payment OR ...)\<close> with at most 50 results.
  \<open>T\<close> is \<^verbatim>\<open>int(self.last_check_time.timestamp())\<close>: the time of the last check, read as
  local time, so moved by the process's offset from UTC (\<open>tz_offset\<close>, seconds east);
  on the first run it is the day, seven days back. The mail service answers with the
  unread messages received from \<open>T\<close> on that its search matches.
\<close>

record world =
  authenticate_ok :: bool
  list_ok :: bool
  tz_offset :: int
  json_loads :: "string \<Rightarrow> json option"
  per_message :: "string \<Rightarrow> msg_world"

definition query_after :: "world \<Rightarrow> int \<Rightarrow> monitor \<Rightarrow> int" where
  "query_after w now st =
     (case last_check_time st of
        Some t \<Rightarrow> t - tz_offset w
      | None \<Rightarrow> ((now - 7 * 86400) div 86400) * 86400)"

definition list_messages :: "int \<Rightarrow> email list \<Rightarrow> string list" where
  "list_messages after mailbox =
     take 50 (map email_id
       (filter (\<lambda>m. unread m \<and> search_hit m \<and> after \<le> internal_date m) mailbox))"

definition mark_read :: "string \<Rightarrow> email list \<Rightarrow> email list" where
  "mark_read message_id mailbox =
     map (\<lambda>m. if email_id m = message_id then m\<lparr>unread := False\<rparr> else m) mailbox"

text \<open>
  The loop of lines 281 to 317 over the listed message ids. It threads the ledger
  (\<^verbatim>\<open>processed_message_ids\<close>), the store and the mailbox, and returns with them the
  list of the messages it attempted, each with what became of it (the source logs
  them).
\<close>

fun process_messages ::
  "(string \<Rightarrow> json option) \<Rightarrow> (string \<Rightarrow> msg_world) \<Rightarrow> monitor \<Rightarrow> string list
    \<Rightarrow> string set \<times> database \<times> email list
    \<Rightarrow> (string set \<times> database \<times> email list) \<times> (string \<times> processing) list" where
  "process_messages jl pw st [] s = (s, [])"
| "process_messages jl pw st (msg_id # rest) (ledger, db, mailbox) =
     (if msg_id \<in> ledger then process_messages jl pw st rest (ledger, db, mailbox)
      else
        let (result, db') = process_email_message jl st (pw msg_id) mailbox msg_id db;
            s' = (if succeeded result
                  then (insert msg_id ledger, db',
                        if modify_ok (pw msg_id) then mark_read msg_id mailbox else mailbox)
                  else (ledger, db', mailbox));
            (s'', log) = process_messages jl pw st rest s'
        in (s'', (msg_id, result) # log))"

definition check_new_emails ::
  "world \<Rightarrow> int \<Rightarrow> monitor \<times> database \<times> email list
    \<Rightarrow> (monitor \<times> database \<times> email list) \<times> (string \<times> processing) list" where
  "check_new_emails w now s =
     (case s of (st, db, mailbox) \<Rightarrow>
        if \<not> service_ready st \<and> \<not> authenticate_ok w then (s, [])
        else
          let st1 = st\<lparr>service_ready := True\<rparr> in
          if \<not> list_ok w then ((st1, db, mailbox), [])
          else
            let messages = list_messages (query_after w now st1) mailbox;
                ((ledger, db', mailbox'), log) =
                   process_messages (json_loads w) (per_message w) st1 messages
                     (processed_message_ids st1, db, mailbox)
            in ((st1\<lparr>processed_message_ids := ledger, last_check_time := Some now\<rparr>,
                 db', mailbox'), log))"

section \<open>Upload channel: \<^verbatim>\<open>upload_receipt\<close>\<close>

text \<open>
  The OCR collaborator's answer is its confidence and the \<^verbatim>\<open>parsed_data\<close> dict, of which
  the handler reads four keys (an absent key is \<open>None\<close>). When OCR raises the handler
  goes on with confidence 0 and the empty dict.
\<close>

record parsed_receipt =
  pr_amount :: "rat option"
  pr_merchant_name :: "string option"
  pr_currency :: "string option"
  pr_invoice_no :: "string option"

record upload_request =
  content_type :: string
  content_length :: int
  form_source_type :: string

record upload_world =
  max_upload_size_mb :: int
  save_ok :: bool
  ocr :: "(rat \<times> parsed_receipt) outcome"
  upload_env :: env

definition SOURCE_TYPE_MAP :: "string \<Rightarrow> source_type" where
  "SOURCE_TYPE_MAP t =
     (if t = ''Upload'' \<or> t = ''UPLOAD'' then UPLOAD
      else if t = ''Gmail'' \<or> t = ''GMAIL'' then GMAIL
      else if t = ''SMS'' then SMS
      else UPLOAD)"

text \<open>
  Lines 96 to 167, the inner \<^verbatim>\<open>try\<close> whose handler logs and goes on "without
  transaction". \<open>Created\<close> is the flushed transaction with the session after it;
  \<open>Swallowed b\<close> is an exception, \<open>b\<close> telling whether it came from a failed flush (after
  which the session refuses the commit that follows); \<open>Not_attempted\<close> is the handler
  passing the block by, for want of an amount. The merchant query at line 113 has no
  owner filter.
\<close>

datatype upload_attempt = Created nat database | Swallowed bool | Not_attempted

definition upload_transaction ::
  "env \<Rightarrow> user \<Rightarrow> string \<Rightarrow> parsed_receipt \<Rightarrow> rat \<Rightarrow> rat \<Rightarrow> source_type \<Rightarrow> source \<Rightarrow> database
    \<Rightarrow> upload_attempt" where
  "upload_transaction e usr user_type parsed_data amount confidence source_type_enum source db1 =
     (case classify_transaction e of
        Raises \<Rightarrow> Swallowed False
      | Returns classification \<Rightarrow>
          let merchant_name = take 255 (get_or (pr_merchant_name parsed_data) ''Unknown'') in
          (case get_or_create_merchant (faults e) merchant_name (\<lambda>m. True)
                  (\<lambda>i. \<lparr>mer_id = i,
                        mer_user_consumer_id = consumer_id_of (user_id usr) user_type,
                        mer_user_business_id = business_id_of (user_id usr) user_type,
                        mer_name_normalized = strip (lower merchant_name),
                        mer_name_variants = [merchant_name]\<rparr>) db1 of
             None \<Rightarrow> Swallowed True
           | Some (merchant_obj, db2) \<Rightarrow>
              (case add_transaction (faults e)
                 (\<lambda>i. \<lparr>txn_id = i,
                       txn_user_consumer_id = consumer_id_of (user_id usr) user_type,
                       txn_user_business_id = business_id_of (user_id usr) user_type,
                       txn_user_type = user_type_label user_type,
                       txn_source_id = src_id source, txn_merchant_id = mer_id merchant_obj,
                       txn_amount = amount,
                       txn_currency = get_or (pr_currency parsed_data) ''INR'',
                       txn_merchant_name_raw = merchant_name,
                       txn_category = get_or (cls_category classification) ''Unknown'',
                       txn_payment_channel = UNKNOWN, txn_source_type = source_type_enum,
                       txn_invoice_no =
                         (case pr_invoice_no parsed_data of None \<Rightarrow> JNull | Some n \<Rightarrow> JStr n),
                       txn_confirmed = False,
                       txn_classification_confidence =
                         get_or (cls_confidence classification) 0,
                       txn_ocr_confidence = confidence\<rparr>) db2 of
                 None \<Rightarrow> Swallowed True
               | Some (transaction, db3) \<Rightarrow> Created (txn_id transaction) db3)))"

text \<open>The response is the source id and the transaction id, if there is one.\<close>

definition upload_receipt ::
  "upload_world \<Rightarrow> user \<Rightarrow> string \<Rightarrow> upload_request \<Rightarrow> database
    \<Rightarrow> (nat + nat \<times> nat option) \<times> database" where
  "upload_receipt w usr user_type req db =
     (if \<not> (startswith (content_type req) ''image/'' \<or>
             startswith (content_type req) ''application/pdf'') then (Inl 400, db)
      else if max_upload_size_mb w * 1024 * 1024 < content_length req then (Inl 400, db)
      else if \<not> save_ok w then (Inl 500, db)
      else
        let (confidence, parsed_data) =
              (case ocr w of
                 Raises \<Rightarrow> (0, \<lparr>pr_amount = None, pr_merchant_name = None, pr_currency = None,
                                 pr_invoice_no = None\<rparr>)
               | Returns r \<Rightarrow> r);
            e = upload_env w;
            source_type_enum = SOURCE_TYPE_MAP (form_source_type req)
        in
        case add_source (faults e)
               (\<lambda>i. \<lparr>src_id = i, src_user_consumer_id = consumer_id_of (user_id usr) user_type,
                     src_user_business_id = business_id_of (user_id usr) user_type,
                     src_source_type = source_type_enum, src_processed = True\<rparr>) db of
          None \<Rightarrow> (Inl 500, db)
        | Some (source, db1) \<Rightarrow>
            let attempt =
                  (case pr_amount parsed_data of
                     None \<Rightarrow> Not_attempted
                   | Some amount \<Rightarrow>
                       if amount = 0 then Not_attempted
                       else upload_transaction e usr user_type parsed_data amount confidence
                              source_type_enum source db1)
            in
            (case attempt of
               Created tid db3 \<Rightarrow>
                 (case commit (faults e) db3 of
                    None \<Rightarrow> (Inl 500, db)
                  | Some d \<Rightarrow> (Inr (src_id source, Some tid), d))
             | Swallowed flush_failed \<Rightarrow>
                 if flush_failed then (Inl 500, db)
                 else
                   (case commit (faults e) db1 of
                      None \<Rightarrow> (Inl 500, db)
                    | Some d \<Rightarrow> (Inr (src_id source, None), d))
             | Not_attempted \<Rightarrow>
                 (case commit (faults e) db1 of
                    None \<Rightarrow> (Inl 500, db)
                  | Some d \<Rightarrow> (Inr (src_id source, None), d))))"

section \<open>Manual entry: \<^verbatim>\<open>add_consumer_transaction\<close>, \<^verbatim>\<open>add_business_transaction\<close>\<close>

text \<open>
  The request body (\<^verbatim>\<open>ConsumerManualTransaction\<close>, \<^verbatim>\<open>BusinessManualTransaction\<close>; their
  declarations are not among the source files), as far as the handlers read it into
  the modelled columns. \<open>mt_party\<close> is \<^verbatim>\<open>paid_to\<close> or \<^verbatim>\<open>party_name\<close>, \<open>mt_number\<close> is
  \<^verbatim>\<open>receipt_number\<close> or \<^verbatim>\<open>invoice_number\<close>.
\<close>

record manual_transaction =
  mt_amount :: rat
  mt_party :: string
  mt_payment_method :: string
  mt_category :: "string option"
  mt_number :: "string option"

definition consumer_channel_map :: "string \<Rightarrow> payment_channel" where
  "consumer_channel_map k =
     (if k = ''cash'' then CASH else if k = ''card'' then CARD else if k = ''upi'' then UPI
      else if k = ''wallet'' then WALLET else CASH)"

definition business_channel_map :: "string \<Rightarrow> payment_channel" where
  "business_channel_map k =
     (if k = ''cash'' then CASH else if k = ''card'' then CARD else if k = ''upi'' then UPI
      else if k = ''cheque'' then BANK_TRANSFER else if k = ''netbanking'' then NETBANKING
      else if k = ''wallet'' then WALLET else CASH)"

text \<open>
  The category of a manual entry: the caller's, with confidence 1, or else the
  classification collaborator's; \<^verbatim>\<open>classification_result["category"]\<close> raises on a
  missing key, and the bare \<^verbatim>\<open>except\<close> answers every exception with "Unknown" and 0.
\<close>

definition manual_category :: "string option \<Rightarrow> classification outcome \<Rightarrow> string \<times> rat" where
  "manual_category category c =
     (if py_or category [] = [] then
        (case c of
           Raises \<Rightarrow> (''Unknown'', 0)
         | Returns r \<Rightarrow>
             (case cls_category r of
                None \<Rightarrow> (''Unknown'', 0)
              | Some cat \<Rightarrow>
                  (case cls_confidence r of None \<Rightarrow> (''Unknown'', 0) | Some k \<Rightarrow> (cat, k))))
      else (py_or category [], 1))"

definition manual_persist ::
  "env \<Rightarrow> user \<Rightarrow> string \<Rightarrow> manual_transaction \<Rightarrow> database \<Rightarrow> (nat \<times> database) option" where
  "manual_persist e usr user_type transaction_data db = do {
     (source, db1) \<leftarrow> add_source (faults e)
        (\<lambda>i. \<lparr>src_id = i, src_user_consumer_id = consumer_id_of (user_id usr) user_type,
              src_user_business_id = business_id_of (user_id usr) user_type,
              src_source_type = MANUAL, src_processed = True\<rparr>) db;
     (merchant_obj, db2) \<leftarrow>
        get_or_create_merchant (faults e) (mt_party transaction_data)
          (owned_by (user_id usr) user_type)
          (\<lambda>i. \<lparr>mer_id = i, mer_user_consumer_id = consumer_id_of (user_id usr) user_type,
                mer_user_business_id = business_id_of (user_id usr) user_type,
                mer_name_normalized = strip (lower (mt_party transaction_data)),
                mer_name_variants = [mt_party transaction_data]\<rparr>) db1;
     let payment_channel =
        (if user_type = ''consumer''
         then consumer_channel_map (lower (mt_payment_method transaction_data))
         else business_channel_map (lower (mt_payment_method transaction_data)));
     let (category, classification_confidence) =
        manual_category (mt_category transaction_data) (classify_transaction e);
     (transaction, db3) \<leftarrow> add_transaction (faults e)
        (\<lambda>i. \<lparr>txn_id = i, txn_user_consumer_id = consumer_id_of (user_id usr) user_type,
              txn_user_business_id = business_id_of (user_id usr) user_type,
              txn_user_type = user_type_label user_type,
              txn_source_id = src_id source, txn_merchant_id = mer_id merchant_obj,
              txn_amount = mt_amount transaction_data, txn_currency = ''INR'',
              txn_merchant_name_raw = mt_party transaction_data,
              txn_category = category, txn_payment_channel = payment_channel,
              txn_source_type = MANUAL,
              txn_invoice_no =
                (case mt_number transaction_data of None \<Rightarrow> JNull | Some n \<Rightarrow> JStr n),
              txn_confirmed = True, txn_classification_confidence = classification_confidence,
              txn_ocr_confidence = 1\<rparr>) db2;
     db4 \<leftarrow> commit (faults e) db3;
     Some (txn_id transaction, db4)
   }"

text \<open>
  The two handlers differ in the user type they admit (status 403 otherwise), in the
  owner column they fill, which \<open>manual_persist\<close> reads off the admitted type, and in
  the channel map.
\<close>

definition add_consumer_transaction ::
  "env \<Rightarrow> user \<Rightarrow> string \<Rightarrow> manual_transaction \<Rightarrow> database \<Rightarrow> (nat + nat) \<times> database" where
  "add_consumer_transaction e usr user_type transaction_data db =
     (if user_type \<noteq> ''consumer'' then (Inl 403, db)
      else
        case manual_persist e usr user_type transaction_data db of
          None \<Rightarrow> (Inl 500, db)
        | Some (tid, db') \<Rightarrow> (Inr tid, db'))"


section \<open>Properties of the store\<close>







section \<open>Example data\<close>

definition example_sms_body :: string where
  "example_sms_body =
     ''Rs 500.00 debited from A/c XX1234 on 15Nov24 to VPA swiggy@paytm UPI Ref 434567890123''"

definition chat_sms :: string where
  "chat_sms =
     ''Forwarded using https://www.sms-fw.com\<newline>From: 'FRIEND' (+910000000000)\<newline>'' @
     ''To: '#phonenumber-sim1'\<newline>When: 2025-11-15 06:39:55\<newline>************\<newline>Bsdk''"

definition no_faults :: db_faults where
  "no_faults =
     \<lparr>flush_source_fails = False, flush_merchant_fails = False,
      flush_transaction_fails = False, commit_fails = False\<rparr>"

definition empty_db :: database where
  "empty_db = \<lparr>sources = [], merchants = [], transactions = []\<rparr>"

definition accepted_verdict :: "string \<Rightarrow> jv option" where
  "accepted_verdict =
     map_of [(''is_transaction'', JBool True), (''amount'', JNum 1299),
             (''merchant'', JStr ''Amazon India''), (''confidence'', JNum (9 / 10))]"

definition doubtful_verdict :: "string \<Rightarrow> jv option" where
  "doubtful_verdict =
     map_of [(''is_transaction'', JBool True), (''amount'', JNum 1299),
             (''merchant'', JStr ''Amazon India''), (''confidence'', JNum (1 / 2))]"

text \<open>A \<^verbatim>\<open>json.loads\<close> that knows two documents, named by their file names.\<close>

definition example_json_loads :: "string \<Rightarrow> json option" where
  "example_json_loads t =
     (if t = ''accepted.json'' then Some (JObject accepted_verdict)
      else if t = ''doubtful.json'' then Some (JObject doubtful_verdict)
      else None)"

definition example_email :: email where
  "example_email =
     \<lparr>email_id = ''m1'', internal_date = 1700000000, unread = True, search_hit = True,
      subject = ''Payment Successful'', sender = ''orders@amazon.in'',
      body = ''Your payment of INR 1299 to Amazon India was successful.''\<rparr>"

definition example_monitor :: monitor where
  "example_monitor = start 1 ''consumer'' new_monitor"

definition healthy :: env where
  "healthy =
     \<lparr>classify_transaction =
        Returns \<lparr>cls_category = Some ''Shopping'', cls_confidence = Some (8 / 10)\<rparr>,
      faults = no_faults\<rparr>"

definition accepting_world :: msg_world where
  "accepting_world =
     \<lparr>get_ok = True, ai_response = Returns ''accepted.json'', store_env = healthy,
      modify_ok = True\<rparr>"

definition doubtful_world :: msg_world where
  "doubtful_world =
     \<lparr>get_ok = True, ai_response = Returns ''doubtful.json'', store_env = healthy,
      modify_ok = True\<rparr>"

definition offers_email :: email where
  "offers_email =
     \<lparr>email_id = ''m2'', internal_date = 1700000050, unread = True, search_hit = True,
      subject = ''Your weekly offers'', sender = ''deals@shop.example'',
      body = ''Big discounts on every payment method this week.''\<rparr>"

definition example_world :: world where
  "example_world =
     \<lparr>authenticate_ok = True, list_ok = True, tz_offset = 0, json_loads = example_json_loads,
      per_message = (\<lambda>m. if m = ''m1'' then accepting_world else doubtful_world)\<rparr>"

text \<open>A world in which the mail service refuses the listing call.\<close>

definition listing_fails :: world where
  "listing_fails = example_world\<lparr>list_ok := False\<rparr>"

text \<open>A world in which the store refuses every commit, and an otherwise equal one in
  which it does not.\<close>

definition commit_refused :: world where
  "commit_refused =
     example_world\<lparr>per_message :=
       (\<lambda>m. accepting_world\<lparr>store_env := healthy\<lparr>faults := no_faults\<lparr>commit_fails := True\<rparr>\<rparr>\<rparr>)\<rparr>"

definition store_recovered :: world where
  "store_recovered = example_world\<lparr>per_message := (\<lambda>m. accepting_world)\<rparr>"

definition checked_monitor :: monitor where
  "checked_monitor =
     example_monitor\<lparr>last_check_time := Some 1700000100, service_ready := True\<rparr>"

text \<open>An upload of a receipt photo that OCR reads well, by consumer 2.\<close>

definition receipt_upload :: upload_request where
  "receipt_upload =
     \<lparr>content_type = ''image/png'', content_length = 2048, form_source_type = ''Upload''\<rparr>"

definition zomato_receipt :: parsed_receipt where
  "zomato_receipt =
     \<lparr>pr_amount = Some 250, pr_merchant_name = Some ''Zomato'', pr_currency = None,
      pr_invoice_no = None\<rparr>"

definition upload_ok :: upload_world where
  "upload_ok =
     \<lparr>max_upload_size_mb = 10, save_ok = True, ocr = Returns (9 / 10, zomato_receipt),
      upload_env = healthy\<rparr>"

definition classifier_down :: upload_world where
  "classifier_down = upload_ok\<lparr>upload_env := healthy\<lparr>classify_transaction := Raises\<rparr>\<rparr>"

definition consumer_2 :: user where
  "consumer_2 = \<lparr>user_id = 2, consent_sms_ingest = True\<rparr>"

text \<open>A store in which consumer 1 already has the merchant "zomato".\<close>

definition zomato_of_consumer_1 :: merchant where
  "zomato_of_consumer_1 =
     \<lparr>mer_id = 1, mer_user_consumer_id = Some 1, mer_user_business_id = None,
      mer_name_normalized = ''zomato'', mer_name_variants = [''Zomato'']\<rparr>"

definition store_of_consumer_1 :: database where
  "store_of_consumer_1 = \<lparr>sources = [], merchants = [zomato_of_consumer_1], transactions = []\<rparr>"


section \<open>SMS field extraction\<close>

lemma example_sms_fields:
  "extract_sms_fields example_sms_body =
     Some \<lparr>sf_amount = Some 500, sf_merchant = Some ''swiggy'', sf_upi_id = Some ''swiggy@paytm'',
           sf_reference_number = Some ''434567890123'', sf_account_number = Some ''1234'',
           sf_transaction_type = ''debit'', sf_balance = None\<rparr>"
  by code_simp

lemma example_sms_channel: "sms_payment_channel example_sms_body = UPI"
  by code_simp

text \<open>
  C7. For the SMS body "Rs 500.00 debited from A/c XX1234 on 15Nov24 to VPA
  swiggy@paytm UPI Ref 434567890123" field extraction yields amount 500.00, direction
  debit, counterparty "swiggy" (from the payment-network identifier swiggy@paytm),
  reference id "434567890123" and masked account "1234", and the payment network is
  UPI.
\<close>

theorem sms_example_candidate:
  "extract_sms_fields
      ''Rs 500.00 debited from A/c XX1234 on 15Nov24 to VPA swiggy@paytm UPI Ref 434567890123'' =
     Some \<lparr>sf_amount = Some 500, sf_merchant = Some ''swiggy'', sf_upi_id = Some ''swiggy@paytm'',
           sf_reference_number = Some ''434567890123'', sf_account_number = Some ''1234'',
           sf_transaction_type = ''debit'', sf_balance = None\<rparr> \<and>
   sms_payment_channel
      ''Rs 500.00 debited from A/c XX1234 on 15Nov24 to VPA swiggy@paytm UPI Ref 434567890123'' =
     UPI"
  using example_sms_fields example_sms_channel
  by (simp only: example_sms_body_def simp_thms)

section \<open>The payment filter\<close>

lemma is_payment_iff:
  "is_payment b \<longleftrightarrow> \<not> (\<forall>pattern \<in> set payment_keywords. re_search True False pattern b = None)"
  by (simp add: is_payment_def list_ex_iff)

lemma chat_sms_no_keyword:
  "\<forall>pattern \<in> set payment_keywords. re_search True False pattern (sms_body_of chat_sms) = None"
  by code_simp

text \<open>
  C8. For every SMS (of a user who has given consent) in whose body none of the fixed
  case-insensitive payment keyword patterns matches, the handler answers "non-payment"
  (success, no transaction id, no source id, \<open>is_payment\<close> false) and leaves the store
  as it was: no SourceRecord, MerchantRecord or TransactionRecord is created.
\<close>

theorem non_payment_sms_creates_nothing:
  assumes "consent_sms_ingest usr"
    and "\<forall>pattern \<in> set payment_keywords.
           re_search True False pattern (sms_body_of raw_sms) = None"
  shows "n8n_sms_webhook e usr user_type raw_sms db =
           (Inr \<lparr>success = True, transaction_id = None, source_id = None,
                  resp_is_payment = False, resp_category = None, resp_confidence = None\<rparr>, db)"
proof -
  from assms(2) have "\<not> is_payment (sms_body_of raw_sms)"
    by (simp add: is_payment_iff)
  with assms(1) show ?thesis
    by (simp add: n8n_sms_webhook_def Let_def)
qed

theorem non_payment_sms_creates_nothing_witness:
  "consent_sms_ingest \<lparr>user_id = 7, consent_sms_ingest = True\<rparr> \<and>
   \<not> is_payment (sms_body_of chat_sms) \<and>
   n8n_sms_webhook \<lparr>classify_transaction = Raises, faults = no_faults\<rparr>
       \<lparr>user_id = 7, consent_sms_ingest = True\<rparr> ''consumer'' chat_sms empty_db =
     (Inr \<lparr>success = True, transaction_id = None, source_id = None,
            resp_is_payment = False, resp_category = None, resp_confidence = None\<rparr>, empty_db)"
proof -
  have c: "consent_sms_ingest \<lparr>user_id = 7, consent_sms_ingest = True\<rparr>"
    by simp
  show ?thesis
    using c chat_sms_no_keyword
      non_payment_sms_creates_nothing [OF c chat_sms_no_keyword,
        of "\<lparr>classify_transaction = Raises, faults = no_faults\<rparr>" "''consumer''" empty_db]
    by (simp add: is_payment_iff)
qed

section \<open>The store\<close>

lemma fold_max_ge: "x \<in> set xs \<Longrightarrow> x \<le> fold max xs (a::nat)"
proof -
  assume "x \<in> set xs"
  moreover have "fold max xs a = Max (set (a # xs))"
    by (rule Max.set_eq_fold [symmetric])
  ultimately show ?thesis
    using Max_ge [of "set (a # xs)" x] by simp
qed

lemma next_id_fresh: "next_id ids \<notin> set ids"
  using fold_max_ge [of "next_id ids" ids 0] by (auto simp: next_id_def)

lemma add_source_Some:
  "add_source f mk db = Some (s, db1) \<Longrightarrow>
     s = mk (next_id (map src_id (sources db))) \<and> db1 = db\<lparr>sources := sources db @ [s]\<rparr>"
  by (auto simp: add_source_def Let_def split: if_splits)

lemma add_transaction_Some:
  "add_transaction f mk db = Some (t, db1) \<Longrightarrow>
     t = mk (next_id (map txn_id (transactions db))) \<and>
     db1 = db\<lparr>transactions := transactions db @ [t]\<rparr>"
  by (auto simp: add_transaction_def Let_def split: if_splits)

lemma get_or_create_merchant_Some:
  "get_or_create_merchant f name owned mk db = Some (m, db1) \<Longrightarrow>
     (m \<in> set (merchants db) \<and> owned m \<and> db1 = db) \<or>
     (query_merchant name owned db = None \<and> m = mk (next_id (map mer_id (merchants db))) \<and>
      db1 = db\<lparr>merchants := merchants db @ [m]\<rparr>)"
  by (auto simp: get_or_create_merchant_def query_merchant_def add_merchant_def Let_def
        find_Some_iff split: option.splits if_splits)

lemma commit_Some: "commit f db = Some db' \<Longrightarrow> db' = db \<and> \<not> commit_fails f"
  by (auto simp: commit_def split: if_splits)

lemma gmail_persist_Some:
  assumes "gmail_persist e uid ut td amount db = Some (tid, db')"
  shows "\<exists>s t m. sources db' = sources db @ [s] \<and>
           transactions db' = transactions db @ [t] \<and>
           (merchants db' = merchants db \<or> merchants db' = merchants db @ [m]) \<and>
           m \<in> set (merchants db') \<and>
           txn_id t = tid \<and> tid = next_id (map txn_id (transactions db)) \<and>
           txn_source_id t = src_id s \<and> txn_merchant_id t = mer_id m \<and>
           src_user_consumer_id s = consumer_id_of uid ut \<and>
           src_user_business_id s = business_id_of uid ut \<and>
           txn_user_consumer_id t = consumer_id_of uid ut \<and>
           txn_user_business_id t = business_id_of uid ut \<and>
           txn_user_type t = user_type_label ut \<and>
           txn_category t = fst (classification_or_unknown (classify_transaction e)) \<and>
           txn_classification_confidence t = snd (classification_or_unknown (classify_transaction e)) \<and>
           \<not> commit_fails (faults e)"
proof -
  from assms obtain s db1 m db2 t db3 where
      1: "add_source (faults e)
            (\<lambda>i. \<lparr>src_id = i, src_user_consumer_id = consumer_id_of uid ut,
                  src_user_business_id = business_id_of uid ut,
                  src_source_type = GMAIL, src_processed = True\<rparr>) db = Some (s, db1)"
    and 2: "get_or_create_merchant (faults e) (take 255 (py_or (td_merchant td) ''Unknown''))
            (owned_by uid ut)
            (\<lambda>i. \<lparr>mer_id = i, mer_user_consumer_id = consumer_id_of uid ut,
                  mer_user_business_id = business_id_of uid ut,
                  mer_name_normalized = strip (lower (take 255 (py_or (td_merchant td) ''Unknown''))),
                  mer_name_variants = [take 255 (py_or (td_merchant td) ''Unknown'')]\<rparr>) db1 = Some (m, db2)"
    and 3: "add_transaction (faults e)
        (\<lambda>i. \<lparr>txn_id = i, txn_user_consumer_id = consumer_id_of uid ut,
              txn_user_business_id = business_id_of uid ut,
              txn_user_type = user_type_label ut,
              txn_source_id = src_id s, txn_merchant_id = mer_id m,
              txn_amount = amount, txn_currency = ''INR'',
              txn_merchant_name_raw = take 255 (py_or (td_merchant td) ''Unknown''),
              txn_category = fst (classification_or_unknown (classify_transaction e)),
              txn_payment_channel = channel_map (td_payment_method td),
              txn_source_type = GMAIL, txn_invoice_no = td_reference_number td,
              txn_confirmed = True,
              txn_classification_confidence = snd (classification_or_unknown (classify_transaction e)),
              txn_ocr_confidence = 1\<rparr>) db2 = Some (t, db3)"
    and 4: "commit (faults e) db3 = Some db'" and 5: "tid = txn_id t"
    by (auto simp: gmail_persist_def Let_def split: bind_splits prod.splits)
  note a = add_source_Some [OF 1] and b = get_or_create_merchant_Some [OF 2]
    and c = add_transaction_Some [OF 3] and d = commit_Some [OF 4]
  from a b c d 5 show ?thesis
    by (intro exI [of _ s] exI [of _ t] exI [of _ m]) auto
qed


section \<open>One message\<close>

lemma process_email_message_cases:
  assumes "process_email_message jl st w mb mid db = (r, db')"
  shows "(\<not> succeeded r \<and> db' = db) \<or>
         (\<exists>tid uid td amount. r = Committed tid \<and> current_user_id st = Some uid \<and> uid \<noteq> 0 \<and>
            gmail_persist (store_env w) uid (get_or (current_user_type st) []) td amount db =
              Some (tid, db'))"
  using assms
  by (auto simp: process_email_message_def succeeded_def
        split: option.splits if_splits prod.splits)

lemma process_email_message_failed:
  "process_email_message jl st w mb mid db = (r, db') \<Longrightarrow> \<not> succeeded r \<Longrightarrow> db' = db"
  by (drule process_email_message_cases) (auto simp: succeeded_def)

lemma process_email_message_committed:
  assumes "process_email_message jl st w mb mid db = (Committed tid, db')"
  shows "\<not> commit_fails (faults (store_env w)) \<and>
         (\<exists>t. transactions db' = transactions db @ [t] \<and> txn_id t = tid) \<and>
         tid \<notin> txn_id ` set (transactions db)"
proof -
  from process_email_message_cases [OF assms] obtain uid td amount where
    "gmail_persist (store_env w) uid (get_or (current_user_type st) []) td amount db =
       Some (tid, db')"
    by (auto simp: succeeded_def)
  from gmail_persist_Some [OF this] obtain t where
    "transactions db' = transactions db @ [t]" "txn_id t = tid"
    "tid = next_id (map txn_id (transactions db))" "\<not> commit_fails (faults (store_env w))"
    by blast
  moreover have "next_id (map txn_id (transactions db)) \<notin> txn_id ` set (transactions db)"
    using next_id_fresh [of "map txn_id (transactions db)"] by simp
  ultimately show ?thesis by auto
qed

section \<open>The poll cycle and the ledger\<close>

lemma process_messages_ledger:
  "process_messages jl pw st ms (ledger, db, mb) = ((ledger', db', mb'), tr) \<Longrightarrow>
     ledger' = ledger \<union> {m. \<exists>tid. (m, Committed tid) \<in> set tr} \<and>
     (\<forall>m tid. (m, Committed tid) \<in> set tr \<longrightarrow>
        \<not> commit_fails (faults (store_env (pw m))) \<and>
        tid \<in> txn_id ` set (transactions db') \<and> tid \<notin> txn_id ` set (transactions db)) \<and>
     set (transactions db) \<subseteq> set (transactions db')"
proof (induction ms arbitrary: ledger db mb ledger' db' mb' tr)
  case Nil
  then show ?case by simp
next
  case (Cons msg_id rest)
  show ?case
  proof (cases "msg_id \<in> ledger")
    case True
    with Cons.prems have "process_messages jl pw st rest (ledger, db, mb) = ((ledger', db', mb'), tr)"
      by simp
    from Cons.IH [OF this] show ?thesis .
  next
    case False
    obtain result db1 where pem:
      "process_email_message jl st (pw msg_id) mb msg_id db = (result, db1)"
      by (cases "process_email_message jl st (pw msg_id) mb msg_id db") auto
    define ledger1 where "ledger1 = (if succeeded result then insert msg_id ledger else ledger)"
    define mb1 where "mb1 = (if succeeded result \<and> modify_ok (pw msg_id) then mark_read msg_id mb else mb)"
    obtain tr0 where rest: "process_messages jl pw st rest (ledger1, db1, mb1) = ((ledger', db', mb'), tr0)"
      and tr_eq: "tr = (msg_id, result) # tr0"
      using Cons.prems False pem
      by (auto simp: ledger1_def mb1_def Let_def split: prod.splits if_splits)
    note ih = Cons.IH [OF rest]
    show ?thesis
    proof (cases "succeeded result")
      case True
      then obtain tid where r: "result = Committed tid"
        by (cases result) (auto simp: succeeded_def)
      from process_email_message_committed [OF pem [unfolded r]] obtain t where
        c: "\<not> commit_fails (faults (store_env (pw msg_id)))"
        and t: "transactions db1 = transactions db @ [t]" "txn_id t = tid"
        and fresh: "tid \<notin> txn_id ` set (transactions db)"
        by blast
      from True have l1: "ledger1 = insert msg_id ledger" by (simp add: ledger1_def)
      from t have sub: "set (transactions db) \<subseteq> set (transactions db1)"
        and tin: "tid \<in> txn_id ` set (transactions db1)" by auto
      from ih l1 tr_eq r c fresh sub tin show ?thesis
        by (auto simp: image_iff subset_iff) 
    next
      case False
      from process_email_message_failed [OF pem False] have "db1 = db" .
      moreover from False have "ledger1 = ledger" by (simp add: ledger1_def)
      moreover from False have "\<And>tid. result \<noteq> Committed tid" by (auto simp: succeeded_def)
      ultimately show ?thesis using ih tr_eq by auto
    qed
  qed
qed


lemma check_new_emails_aborts:
  "(\<not> service_ready st \<and> \<not> authenticate_ok w) \<or> \<not> list_ok w \<Longrightarrow>
     snd (check_new_emails w now (st, db, mb)) = [] \<and>
     processed_message_ids (fst (fst (check_new_emails w now (st, db, mb)))) =
       processed_message_ids st \<and>
     last_check_time (fst (fst (check_new_emails w now (st, db, mb)))) = last_check_time st \<and>
     snd (fst (check_new_emails w now (st, db, mb))) = (db, mb)"
  by (auto simp: check_new_emails_def Let_def)

lemma check_new_emails_runs:
  assumes "service_ready st \<or> authenticate_ok w" and "list_ok w"
    and "process_messages (json_loads w) (per_message w) (st\<lparr>service_ready := True\<rparr>)
           (list_messages (query_after w now (st\<lparr>service_ready := True\<rparr>)) mb)
           (processed_message_ids st, db, mb) = ((ledger, db2, mb2), tr)"
  shows "check_new_emails w now (st, db, mb) =
           ((st\<lparr>service_ready := True, processed_message_ids := ledger,
                 last_check_time := Some now\<rparr>, db2, mb2), tr)"
  using assms by (auto simp: check_new_emails_def Let_def)


lemma example_cycle_trace:
  "snd (check_new_emails example_world 1700000100
          (example_monitor, empty_db, [example_email, offers_email])) =
     [(''m1'', Committed 1), (''m2'', No_transaction_data)]"
  by code_simp

text \<open>
  C3. After a poll cycle a message id is in the ledger exactly when it was there
  before or the cycle's attempt on it ended in \<open>Committed\<close>; and every such attempt
  went through a commit that the store accepted and left its transaction, one that
  was not there before the cycle, in the store. So an attempt that fails at any step
  (no user, no data extracted, no amount, a database error) adds nothing to the
  ledger.
\<close>

theorem ledger_only_after_commit:
  assumes "check_new_emails w now (st, db, mb) = ((st', db', mb'), tr)"
  shows "processed_message_ids st' =
           processed_message_ids st \<union> {m. \<exists>tid. (m, Committed tid) \<in> set tr} \<and>
         (\<forall>m tid. (m, Committed tid) \<in> set tr \<longrightarrow>
            \<not> commit_fails (faults (store_env (per_message w m))) \<and>
            tid \<in> txn_id ` set (transactions db') \<and>
            tid \<notin> txn_id ` set (transactions db))"
proof (cases "(\<not> service_ready st \<and> \<not> authenticate_ok w) \<or> \<not> list_ok w")
  case True
  from check_new_emails_aborts [OF True, of now db mb] assms show ?thesis
    by simp
next
  case False
  obtain ledger db2 mb2 tr2 where
    pm: "process_messages (json_loads w) (per_message w) (st\<lparr>service_ready := True\<rparr>)
           (list_messages (query_after w now (st\<lparr>service_ready := True\<rparr>)) mb)
           (processed_message_ids st, db, mb) = ((ledger, db2, mb2), tr2)"
    by (metis prod_cases3 surj_pair)
  from False have "service_ready st \<or> authenticate_ok w" "list_ok w" by auto
  from check_new_emails_runs [OF this pm] assms
  have "st' = st\<lparr>service_ready := True, processed_message_ids := ledger,
                  last_check_time := Some now\<rparr>" "db' = db2" "tr = tr2"
    by simp_all
  with process_messages_ledger [OF pm] show ?thesis
    by simp
qed

theorem ledger_only_after_commit_witness:
  "snd (check_new_emails example_world 1700000100
          (example_monitor, empty_db, [example_email, offers_email])) =
     [(''m1'', Committed 1), (''m2'', No_transaction_data)] \<and>
   processed_message_ids (fst (fst (check_new_emails example_world 1700000100
          (example_monitor, empty_db, [example_email, offers_email])))) = {''m1''} \<and>
   \<not> commit_fails (faults (store_env (per_message example_world ''m1''))) \<and>
   1 \<in> txn_id ` set (transactions (fst (snd (fst (check_new_emails example_world 1700000100
          (example_monitor, empty_db, [example_email, offers_email]))))))"
proof -
  let ?R = "check_new_emails example_world 1700000100
              (example_monitor, empty_db, [example_email, offers_email])"
  have eq: "?R = ((fst (fst ?R), fst (snd (fst ?R)), snd (snd (fst ?R))), snd ?R)"
    by simp
  from ledger_only_after_commit [OF eq] example_cycle_trace show ?thesis
    by (auto simp: example_monitor_def start_def new_monitor_def)
qed

section \<open>Attribution to the configured owner\<close>

lemma get_or_type: "get_or (current_user_type st) [] = ''consumer'' \<longleftrightarrow> current_user_type st = Some ''consumer''"
  "get_or (current_user_type st) [] = ''business'' \<longleftrightarrow> current_user_type st = Some ''business''"
  by (auto simp: get_or_def split: option.splits)

lemma example_processing:
  "process_email_message example_json_loads example_monitor accepting_world [example_email]
      ''m1'' empty_db =
     (Committed 1,
      \<lparr>sources = [\<lparr>src_id = 1, src_user_consumer_id = Some 1, src_user_business_id = None,
                   src_source_type = GMAIL, src_processed = True\<rparr>],
       merchants = [\<lparr>mer_id = 1, mer_user_consumer_id = Some 1, mer_user_business_id = None,
                     mer_name_normalized = ''amazon india'',
                     mer_name_variants = [''Amazon India'']\<rparr>],
       transactions = [\<lparr>txn_id = 1, txn_user_consumer_id = Some 1, txn_user_business_id = None,
                        txn_user_type = ''CONSUMER'', txn_source_id = 1, txn_merchant_id = 1,
                        txn_amount = 1299, txn_currency = ''INR'',
                        txn_merchant_name_raw = ''Amazon India'', txn_category = ''Shopping'',
                        txn_payment_channel = UNKNOWN, txn_source_type = GMAIL,
                        txn_invoice_no = JNull, txn_confirmed = True,
                        txn_classification_confidence = 8 / 10, txn_ocr_confidence = 1\<rparr>]\<rparr>)"
  by code_simp

text \<open>
  C10. When the monitor has no configured owner (\<open>current_user_id\<close> is \<open>None\<close>),
  processing a message reports failure and leaves the store as it was. And every
  source and every transaction that processing a message adds to the store carries
  the configured \<open>current_user_id\<close> in the owner column that \<open>current_user_type\<close>
  names, null in the other, and the matching user type label.
\<close>

theorem monitor_owner_attribution:
  assumes "process_email_message jl st w mb mid db = (r, db')"
  shows "(current_user_id st = None \<longrightarrow> r = No_user_configured \<and> db' = db) \<and>
         (\<forall>s \<in> set (sources db') - set (sources db).
            src_user_consumer_id s =
              (if current_user_type st = Some ''consumer'' then current_user_id st else None) \<and>
            src_user_business_id s =
              (if current_user_type st = Some ''business'' then current_user_id st else None)) \<and>
         (\<forall>t \<in> set (transactions db') - set (transactions db).
            txn_user_consumer_id t =
              (if current_user_type st = Some ''consumer'' then current_user_id st else None) \<and>
            txn_user_business_id t =
              (if current_user_type st = Some ''business'' then current_user_id st else None) \<and>
            txn_user_type t =
              (if current_user_type st = Some ''consumer'' then ''CONSUMER'' else ''BUSINESS''))"
proof -
  have first: "current_user_id st = None \<longrightarrow> r = No_user_configured \<and> db' = db"
    using assms by (auto simp: process_email_message_def)
  from process_email_message_cases [OF assms]
  show ?thesis
  proof
    assume "\<not> succeeded r \<and> db' = db"
    with first show ?thesis by simp
  next
    assume "\<exists>tid uid td amount. r = Committed tid \<and> current_user_id st = Some uid \<and> uid \<noteq> 0 \<and>
            gmail_persist (store_env w) uid (get_or (current_user_type st) []) td amount db =
              Some (tid, db')"
    then obtain tid uid td amount where uid: "current_user_id st = Some uid"
      and gp: "gmail_persist (store_env w) uid (get_or (current_user_type st) []) td amount db =
              Some (tid, db')" by blast
    from gmail_persist_Some [OF gp] obtain s t where
      "sources db' = sources db @ [s]" "transactions db' = transactions db @ [t]"
      "src_user_consumer_id s = consumer_id_of uid (get_or (current_user_type st) [])"
      "src_user_business_id s = business_id_of uid (get_or (current_user_type st) [])"
      "txn_user_consumer_id t = consumer_id_of uid (get_or (current_user_type st) [])"
      "txn_user_business_id t = business_id_of uid (get_or (current_user_type st) [])"
      "txn_user_type t = user_type_label (get_or (current_user_type st) [])"
      by blast
    with uid first show ?thesis
      by (auto simp: consumer_id_of_def business_id_of_def user_type_label_def get_or_type)
  qed
qed

theorem monitor_owner_attribution_witness:
  "current_user_id new_monitor = None \<and>
   process_email_message example_json_loads new_monitor accepting_world [example_email]
      ''m1'' empty_db = (No_user_configured, empty_db) \<and>
   map (\<lambda>s. (src_user_consumer_id s, src_user_business_id s))
     (sources (snd (process_email_message example_json_loads example_monitor accepting_world
        [example_email] ''m1'' empty_db))) = [(Some 1, None)] \<and>
   map (\<lambda>t. (txn_user_consumer_id t, txn_user_business_id t, txn_user_type t))
     (transactions (snd (process_email_message example_json_loads example_monitor
        accepting_world [example_email] ''m1'' empty_db))) = [(Some 1, None, ''CONSUMER'')]"
proof -
  let ?none = "process_email_message example_json_loads new_monitor accepting_world
                 [example_email] ''m1'' empty_db"
  let ?one = "process_email_message example_json_loads example_monitor accepting_world
                [example_email] ''m1'' empty_db"
  have a: "?none = (fst ?none, snd ?none)" and b: "?one = (fst ?one, snd ?one)"
    by simp_all
  have n: "current_user_id new_monitor = None"
    by (simp add: new_monitor_def)
  from monitor_owner_attribution [OF a] n have "?none = (No_user_configured, empty_db)"
    by (metis prod.collapse)
  with n monitor_owner_attribution [OF b] example_processing show ?thesis
    by simp
qed

section \<open>The time of the last check\<close>

lemma process_messages_attempts:
  "process_messages jl pw st ms (ledger, db, mb) = ((ledger', db', mb'), tr) \<Longrightarrow>
     (\<forall>m \<in> set ms. m \<in> ledger \<or> m \<in> fst ` set tr) \<and> ledger \<subseteq> ledger'"
proof (induction ms arbitrary: ledger db mb ledger' db' mb' tr)
  case Nil
  then show ?case by simp
next
  case (Cons msg_id rest)
  show ?case
  proof (cases "msg_id \<in> ledger")
    case True
    with Cons.prems have "process_messages jl pw st rest (ledger, db, mb) = ((ledger', db', mb'), tr)"
      by simp
    from Cons.IH [OF this] True show ?thesis by auto
  next
    case False
    obtain result db1 where pem:
      "process_email_message jl st (pw msg_id) mb msg_id db = (result, db1)"
      by (cases "process_email_message jl st (pw msg_id) mb msg_id db") auto
    define ledger1 where "ledger1 = (if succeeded result then insert msg_id ledger else ledger)"
    define mb1 where "mb1 = (if succeeded result \<and> modify_ok (pw msg_id) then mark_read msg_id mb else mb)"
    obtain tr0 where rest: "process_messages jl pw st rest (ledger1, db1, mb1) = ((ledger', db', mb'), tr0)"
      and tr_eq: "tr = (msg_id, result) # tr0"
      using Cons.prems False pem
      by (auto simp: ledger1_def mb1_def Let_def split: prod.splits if_splits)
    from Cons.IH [OF rest] tr_eq show ?thesis
      by (auto simp: ledger1_def split: if_splits)
  qed
qed

lemma listing_fails_cycle:
  "check_new_emails listing_fails 1700000130 (checked_monitor, empty_db, [example_email]) =
     ((checked_monitor, empty_db, [example_email]), [])"
  by (simp add: check_new_emails_def listing_fails_def checked_monitor_def)

text \<open>
  C6, as stated, fails: a cycle whose listing call meets a mailbox API error
  aborts and leaves \<open>last_check_time\<close> as it was. Here the last check was at
  1700000100 and the failed cycle runs at 1700000130.
\<close>

theorem listing_error_leaves_last_check_time:
  "last_check_time (fst (fst (check_new_emails listing_fails 1700000130
       (checked_monitor, empty_db, [example_email])))) = Some 1700000100 \<and>
   last_check_time (fst (fst (check_new_emails listing_fails 1700000130
       (checked_monitor, empty_db, [example_email])))) \<noteq> Some 1700000130"
  by (simp add: listing_fails_cycle) (simp add: checked_monitor_def)

text \<open>
  C6, amended. In a cycle that gets as far as the listing call: when that call
  fails, the cycle aborts before any message is attempted and leaves
  \<open>last_check_time\<close>, the ledger, the store and the mailbox as they were, so that a
  later cycle starts from the same state; when it succeeds, every listed message
  outside the ledger is attempted (a mailbox error on one message does not abort the
  cycle) and \<open>last_check_time\<close> is the time of this cycle at its end, whatever the
  outcomes of the messages.
\<close>

theorem last_check_time_per_cycle:
  assumes "service_ready st \<or> authenticate_ok w"
    and "check_new_emails w now (st, db, mb) = ((st', db', mb'), tr)"
  shows "(\<not> list_ok w \<longrightarrow>
            st' = st\<lparr>service_ready := True\<rparr> \<and> db' = db \<and> mb' = mb \<and> tr = []) \<and>
         (list_ok w \<longrightarrow>
            last_check_time st' = Some now \<and>
            (\<forall>m \<in> set (list_messages (query_after w now st) mb).
               m \<in> processed_message_ids st \<or> m \<in> fst ` set tr))"
proof (cases "list_ok w")
  case False
  with assms show ?thesis
    by (auto simp: check_new_emails_def Let_def)
next
  case True
  obtain ledger db2 mb2 tr2 where
    pm: "process_messages (json_loads w) (per_message w) (st\<lparr>service_ready := True\<rparr>)
           (list_messages (query_after w now (st\<lparr>service_ready := True\<rparr>)) mb)
           (processed_message_ids st, db, mb) = ((ledger, db2, mb2), tr2)"
    by (metis prod_cases3 surj_pair)
  from check_new_emails_runs [OF assms(1) True pm] assms(2)
  have "st' = st\<lparr>service_ready := True, processed_message_ids := ledger,
                  last_check_time := Some now\<rparr>" "tr = tr2"
    by simp_all
  moreover have "query_after w now (st\<lparr>service_ready := True\<rparr>) = query_after w now st"
    by (simp add: query_after_def)
  ultimately show ?thesis
    using process_messages_attempts [OF pm] True by simp
qed

theorem last_check_time_per_cycle_witness:
  "service_ready checked_monitor \<and> \<not> list_ok listing_fails \<and>
   check_new_emails listing_fails 1700000130 (checked_monitor, empty_db, [example_email]) =
     ((checked_monitor, empty_db, [example_email]), []) \<and>
   authenticate_ok example_world \<and> list_ok example_world \<and>
   last_check_time (fst (fst (check_new_emails example_world 1700000100
      (example_monitor, empty_db, [example_email, offers_email])))) = Some 1700000100 \<and>
   list_messages (query_after example_world 1700000100 example_monitor)
      [example_email, offers_email] = [''m1'', ''m2'']"
proof -
  let ?F = "check_new_emails listing_fails 1700000130 (checked_monitor, empty_db, [example_email])"
  let ?R = "check_new_emails example_world 1700000100
              (example_monitor, empty_db, [example_email, offers_email])"
  have f: "?F = ((fst (fst ?F), fst (snd (fst ?F)), snd (snd (fst ?F))), snd ?F)"
    and r: "?R = ((fst (fst ?R), fst (snd (fst ?R)), snd (snd (fst ?R))), snd ?R)"
    by simp_all
  have s: "service_ready checked_monitor \<or> authenticate_ok listing_fails"
    and a: "service_ready example_monitor \<or> authenticate_ok example_world"
    by (simp_all add: checked_monitor_def example_world_def)
  have l: "\<not> list_ok listing_fails" "list_ok example_world" "authenticate_ok example_world"
    "service_ready checked_monitor"
    by (simp_all add: listing_fails_def example_world_def checked_monitor_def)
  have q: "list_messages (query_after example_world 1700000100 example_monitor)
      [example_email, offers_email] = [''m1'', ''m2'']"
    by (simp add: list_messages_def query_after_def example_monitor_def start_def new_monitor_def
          example_email_def offers_email_def)
  from last_check_time_per_cycle [OF s f] last_check_time_per_cycle [OF a r] l q
  show ?thesis
    by (simp add: listing_fails_cycle)
qed

section \<open>Retrying a failed message\<close>

lemma stale_messages_not_listed:
  assumes "last_check_time st = Some t"
    and "\<forall>m \<in> set mb. internal_date m < t - tz_offset w"
  shows "list_messages (query_after w now st) mb = []"
  using assms by (auto simp: list_messages_def query_after_def filter_empty_conv)

text \<open>
  C4 does not hold of the code. A message received at 1700000000 is attempted in
  the first cycle (at 1700000100, in a process whose local time is UTC) and fails
  there, because the store refuses the commit. It stays unread and outside the
  ledger. The next cycle, at 1700000130 and with the store recovered, lists only
  messages received after the first check, and does not attempt it; a poller that
  had not run the first cycle would have attempted and committed it.
\<close>

theorem failed_message_is_not_retried:
  "snd (check_new_emails commit_refused 1700000100 (example_monitor, empty_db, [example_email])) =
     [(''m1'', Database_error)] \<and>
   ''m1'' \<notin> processed_message_ids (fst (fst (check_new_emails commit_refused 1700000100
       (example_monitor, empty_db, [example_email])))) \<and>
   map unread (snd (snd (fst (check_new_emails commit_refused 1700000100
       (example_monitor, empty_db, [example_email]))))) = [True] \<and>
   snd (check_new_emails store_recovered 1700000130
         (fst (check_new_emails commit_refused 1700000100
            (example_monitor, empty_db, [example_email])))) = [] \<and>
   snd (check_new_emails store_recovered 1700000130
         (example_monitor, empty_db, [example_email])) = [(''m1'', Committed 1)]"
  by code_simp

section \<open>Source and transaction as one unit\<close>



















section \<open>Classification failure\<close>

lemma classification_failure_is_unknown:
  "classification_or_unknown Raises = (''Unknown'', 0)"
  "manual_category None Raises = (''Unknown'', 0)"
  by (simp_all add: classification_or_unknown_def manual_category_def py_or_def)

lemma email_classification_failure:
  assumes "classify_transaction (store_env w) = Raises"
    and "process_email_message jl st w mb mid db = (Committed tid, db')"
  shows "\<exists>t \<in> set (transactions db').
           txn_id t = tid \<and> txn_category t = ''Unknown'' \<and> txn_classification_confidence t = 0"
proof -
  from process_email_message_cases [OF assms(2)] obtain uid td amount where
    "gmail_persist (store_env w) uid (get_or (current_user_type st) []) td amount db =
       Some (tid, db')"
    by (auto simp: succeeded_def)
  from gmail_persist_Some [OF this] assms(1) show ?thesis
    by (auto simp: classification_or_unknown_def)
qed

text \<open>
  C1 does not hold of the code on the upload channel. The SMS, email and manual
  handlers catch a failure of the classification collaborator around the call and go
  on with "Unknown" and 0 (the two lemmas above). \<open>upload_receipt\<close> calls it inside the
  \<^verbatim>\<open>try\<close> that builds the transaction: for a PNG whose OCR result has amount 250 and
  merchant "Zomato", a classifier that raises leaves the source without any
  transaction.
\<close>

theorem upload_without_classification_has_no_transaction:
  "upload_receipt classifier_down consumer_2 ''consumer'' receipt_upload empty_db =
     (Inr (1, None),
      \<lparr>sources = [\<lparr>src_id = 1, src_user_consumer_id = Some 2, src_user_business_id = None,
                   src_source_type = UPLOAD, src_processed = True\<rparr>],
       merchants = [], transactions = []\<rparr>)"
  by code_simp

section \<open>Merchant resolution and the owner\<close>

lemma owner_scoped_merchant:
  assumes "get_or_create_merchant f name (owned_by uid ut) mk db = Some (m, db1)"
    and "ut = ''consumer'' \<or> ut = ''business''"
    and "\<forall>i. mer_user_consumer_id (mk i) = consumer_id_of uid ut \<and>
             mer_user_business_id (mk i) = business_id_of uid ut"
  shows "owned_by uid ut m"
  using get_or_create_merchant_Some [OF assms(1)] assms(2,3)
  by (auto simp: owned_by_def consumer_id_of_def business_id_of_def)

text \<open>
  C2 does not hold of the code on the upload channel. The merchant query of the SMS,
  email and manual handlers filters by the owner (lemma \<open>owner_scoped_merchant\<close>: for a
  consumer or business user the merchant they resolve is owned by that user); the
  query of \<open>upload_receipt\<close> has no owner filter. In a store where consumer 1 owns the
  merchant "zomato", an upload by consumer 2 of a receipt from "Zomato" creates no
  merchant and attaches consumer 2's transaction to consumer 1's merchant, while a
  manual entry by consumer 2 for "Zomato" creates a merchant of their own.
\<close>

theorem upload_reuses_foreign_merchant:
  "map (\<lambda>m. (mer_id m, mer_user_consumer_id m))
     (merchants (snd (upload_receipt upload_ok consumer_2 ''consumer'' receipt_upload
        store_of_consumer_1))) = [(1, Some 1)] \<and>
   map (\<lambda>t. (txn_user_consumer_id t, txn_merchant_id t))
     (transactions (snd (upload_receipt upload_ok consumer_2 ''consumer'' receipt_upload
        store_of_consumer_1))) = [(Some 2, 1)] \<and>
   map (\<lambda>m. (mer_id m, mer_user_consumer_id m))
     (merchants (snd (add_consumer_transaction healthy consumer_2 ''consumer''
        \<lparr>mt_amount = 250, mt_party = ''Zomato'', mt_payment_method = ''upi'',
         mt_category = None, mt_number = None\<rparr> store_of_consumer_1))) =
     [(1, Some 1), (2, Some 2)]"
  by code_simp

section \<open>The AI extraction path of the email channel\<close>












end
